theory Spec2Isabelle
  imports Main
begin

section \<open>JSON values and the Python operations the loader applies to them\<close>

text \<open>
  A payload is what \<^verbatim>\<open>json.load\<close> returns: \<^verbatim>\<open>None\<close>, a bool, an int, a str, a list or
  a dict. A dict is the list of its bindings in document order; the parser keeps one
  binding per key. Floating point numbers do not occur in the fields the loader reads and
  are left out.
\<close>

datatype json =
    JNull
  | JBool bool
  | JInt int
  | JStr string
  | JArr "json list"
  | JObj "(string \<times> json) list"

datatype error = AttributeError | TypeError | ValueError | KeyError | StorageError

text \<open>Truth value of a Python object, as \<^verbatim>\<open>if x:\<close> and \<^verbatim>\<open>x or y\<close> test it.\<close>

fun py_truthy :: "json \<Rightarrow> bool" where
  "py_truthy JNull = False"
| "py_truthy (JBool b) = b"
| "py_truthy (JInt i) = (i \<noteq> 0)"
| "py_truthy (JStr s) = (s \<noteq> [])"
| "py_truthy (JArr xs) = (xs \<noteq> [])"
| "py_truthy (JObj kvs) = (kvs \<noteq> [])"

definition py_or :: "json \<Rightarrow> json \<Rightarrow> json" where
  "py_or a b = (if py_truthy a then a else b)"

text \<open>\<^verbatim>\<open>d.get(k, default)\<close>: only a dict has the method.\<close>

fun py_get :: "json \<Rightarrow> string \<Rightarrow> json \<Rightarrow> error + json" where
  "py_get (JObj kvs) k d = Inr (case map_of kvs k of Some v \<Rightarrow> v | None \<Rightarrow> d)"
| "py_get JNull k d = Inl AttributeError"
| "py_get (JBool b) k d = Inl AttributeError"
| "py_get (JInt i) k d = Inl AttributeError"
| "py_get (JStr s) k d = Inl AttributeError"
| "py_get (JArr xs) k d = Inl AttributeError"

text \<open>\<^verbatim>\<open>d.get(k)\<close>, whose default is \<^verbatim>\<open>None\<close>.\<close>

definition get0 :: "json \<Rightarrow> string \<Rightarrow> error + json" where
  "get0 d k = py_get d k JNull"

text \<open>\<^verbatim>\<open>d.get(k1, {}).get(k2, default)\<close>\<close>

definition get_in :: "json \<Rightarrow> string \<Rightarrow> string \<Rightarrow> json \<Rightarrow> error + json" where
  "get_in d k1 k2 dflt =
     (case py_get d k1 (JObj []) of Inl e \<Rightarrow> Inl e | Inr x \<Rightarrow> py_get x k2 dflt)"

text \<open>\<^verbatim>\<open>d.items()\<close>\<close>

fun py_items :: "json \<Rightarrow> error + (string \<times> json) list" where
  "py_items (JObj kvs) = Inr kvs"
| "py_items JNull = Inl AttributeError"
| "py_items (JBool b) = Inl AttributeError"
| "py_items (JInt i) = Inl AttributeError"
| "py_items (JStr s) = Inl AttributeError"
| "py_items (JArr xs) = Inl AttributeError"

text \<open>\<^verbatim>\<open>p in s\<close> on two strings: \<open>p\<close> occurs in \<open>s\<close> as a contiguous run.\<close>

fun py_in_str :: "string \<Rightarrow> string \<Rightarrow> bool" where
  "py_in_str p [] = (p = [])"
| "py_in_str p (c # cs) = (take (length p) (c # cs) = p \<or> py_in_str p cs)"

text \<open>\<^verbatim>\<open>k in x\<close> for a string \<open>k\<close>.\<close>

fun py_in :: "string \<Rightarrow> json \<Rightarrow> error + bool" where
  "py_in k (JObj kvs) = Inr (k \<in> set (map fst kvs))"
| "py_in k (JArr xs) = Inr (JStr k \<in> set xs)"
| "py_in k (JStr s) = Inr (py_in_str k s)"
| "py_in k JNull = Inl TypeError"
| "py_in k (JBool b) = Inl TypeError"
| "py_in k (JInt i) = Inl TypeError"

text \<open>\<^verbatim>\<open>d[k]\<close> for a string \<open>k\<close> on a dict.\<close>

fun py_index :: "json \<Rightarrow> string \<Rightarrow> error + json" where
  "py_index (JObj kvs) k = (case map_of kvs k of Some v \<Rightarrow> Inr v | None \<Rightarrow> Inl KeyError)"
| "py_index JNull k = Inl TypeError"
| "py_index (JBool b) k = Inl TypeError"
| "py_index (JInt i) k = Inl TypeError"
| "py_index (JStr s) k = Inl TypeError"
| "py_index (JArr xs) k = Inl TypeError"

text \<open>The elements a \<^verbatim>\<open>for\<close> loop visits; \<^verbatim>\<open>len\<close> fails on the same values.\<close>

fun py_iter :: "json \<Rightarrow> error + json list" where
  "py_iter (JArr xs) = Inr xs"
| "py_iter (JObj kvs) = Inr (map (\<lambda>kv. JStr (fst kv)) kvs)"
| "py_iter (JStr s) = Inr (map (\<lambda>c. JStr [c]) s)"
| "py_iter JNull = Inl TypeError"
| "py_iter (JBool b) = Inl TypeError"
| "py_iter (JInt i) = Inl TypeError"

definition startswith :: "string \<Rightarrow> string \<Rightarrow> bool" where
  "startswith s p = (take (length p) s = p)"

text \<open>\<^verbatim>\<open>s.replace('Z', '+00:00')\<close>\<close>

definition replace_Z :: "string \<Rightarrow> string" where
  "replace_Z s = concat (map (\<lambda>c. if c = CHR ''Z'' then ''+00:00'' else [c]) s)"

definition is_dict :: "json \<Rightarrow> bool" where
  "is_dict j = (case j of JObj kvs \<Rightarrow> True | _ \<Rightarrow> False)"

section \<open>The database\<close>

text \<open>
  The SQL Server behind \<^verbatim>\<open>DatabaseConnection.execute_query\<close>. A cell holds the value the
  driver bound for it; a row maps column names to cells (a column that was never written
  is NULL); a table is the list of its rows in insertion order, whose position stands for
  the IDENTITY column of \<^verbatim>\<open>boxscore\<close> and \<^verbatim>\<open>raw_json_data\<close>. The \<^verbatim>\<open>created_at\<close> defaults
  and the server's conversion of a bound value to the column type are not modelled.
\<close>

type_synonym date = "nat \<times> nat \<times> nat"

datatype sqlval = SNull | SInt int | SStr string | SDate date | SDumps json

text \<open>
  A Python value passed as a statement parameter: an object taken from the payload, a
  \<^verbatim>\<open>date\<close>/\<^verbatim>\<open>datetime\<close> object, or the text \<^verbatim>\<open>json.dumps\<close> made of a payload.
\<close>

datatype pyval = PJson json | PDate date | PDumps json

type_synonym params = "(string \<times> pyval) list"
type_synonym row = "string \<Rightarrow> sqlval"
type_synonym tables = "string \<Rightarrow> row list"

text \<open>What the driver binds for a parameter; it refuses a list or a dict.\<close>

fun bind_param :: "pyval \<Rightarrow> error + sqlval" where
  "bind_param (PDate d) = Inr (SDate d)"
| "bind_param (PDumps j) = Inr (SDumps j)"
| "bind_param (PJson JNull) = Inr SNull"
| "bind_param (PJson (JBool b)) = Inr (SInt (if b then 1 else 0))"
| "bind_param (PJson (JInt i)) = Inr (SInt i)"
| "bind_param (PJson (JStr s)) = Inr (SStr s)"
| "bind_param (PJson (JArr xs)) = Inl StorageError"
| "bind_param (PJson (JObj kvs)) = Inl StorageError"

text \<open>Every named parameter of the statement needs a bound value.\<close>

fun bind_params :: "string list \<Rightarrow> params \<Rightarrow> error + row" where
  "bind_params [] ps = Inr (\<lambda>c. SNull)"
| "bind_params (c # cs) ps =
     (case map_of ps c of
        None \<Rightarrow> Inl StorageError
      | Some v \<Rightarrow>
          (case bind_param v of
             Inl e \<Rightarrow> Inl e
           | Inr s \<Rightarrow>
               (case bind_params cs ps of
                  Inl e \<Rightarrow> Inl e
                | Inr vals \<Rightarrow> Inr (vals(c := s)))))"

text \<open>The schema of \<^verbatim>\<open>create_tables\<close>: primary keys and foreign keys.\<close>

definition primary_key :: "string \<Rightarrow> string option" where
  "primary_key t =
     (if t = ''teams'' then Some ''team_id''
      else if t = ''games'' then Some ''game_id''
      else if t = ''players'' then Some ''player_id''
      else None)"

definition foreign_keys :: "string \<Rightarrow> (string \<times> string \<times> string) list" where
  "foreign_keys t =
     (if t = ''games'' then
        [(''home_team_id'', ''teams'', ''team_id''), (''away_team_id'', ''teams'', ''team_id'')]
      else if t = ''players'' then [(''team_id'', ''teams'', ''team_id'')]
      else if t = ''boxscore'' then
        [(''game_id'', ''games'', ''game_id''), (''player_id'', ''players'', ''player_id''),
         (''team_id'', ''teams'', ''team_id'')]
      else [])"

text \<open>SQL comparison \<^verbatim>\<open>a = b\<close> in a WHERE clause: never true on NULL.\<close>

definition sql_eq :: "sqlval \<Rightarrow> sqlval \<Rightarrow> bool" where
  "sql_eq a b = (a \<noteq> SNull \<and> b \<noteq> SNull \<and> a = b)"

text \<open>\<^verbatim>\<open>WHERE k1 = :k1 AND k2 = :k2 ...\<close>\<close>

definition matches :: "string list \<Rightarrow> row \<Rightarrow> row \<Rightarrow> bool" where
  "matches keys vals r = list_all (\<lambda>k. sql_eq (r k) (vals k)) keys"

definition pk_ok :: "tables \<Rightarrow> string \<Rightarrow> row \<Rightarrow> bool" where
  "pk_ok db t r =
     (case primary_key t of
        None \<Rightarrow> True
      | Some k \<Rightarrow> r k \<noteq> SNull \<and> list_all (\<lambda>r'. r' k \<noteq> r k) (db t))"

definition fk_ok :: "tables \<Rightarrow> string \<Rightarrow> string list \<Rightarrow> row \<Rightarrow> bool" where
  "fk_ok db t cols r =
     list_all (\<lambda>(c, t', c'). c \<notin> set cols \<or> r c = SNull \<or> list_ex (\<lambda>r'. r' c' = r c) (db t'))
       (foreign_keys t)"

text \<open>The outcome of running code against the connection: the exception raised, if any,
  and the tables as the connection sees them at that moment.\<close>

type_synonym outcome = "error option \<times> tables"

definition bindE :: "error + 'a \<Rightarrow> ('a \<Rightarrow> error + 'b) \<Rightarrow> error + 'b" where
  "bindE x f = (case x of Inl e \<Rightarrow> Inl e | Inr v \<Rightarrow> f v)"

definition and_then :: "outcome \<Rightarrow> (tables \<Rightarrow> outcome) \<Rightarrow> outcome" where
  "and_then r f = (case r of (None, db) \<Rightarrow> f db | (Some e, db) \<Rightarrow> (Some e, db))"

definition with_value :: "error + 'a \<Rightarrow> tables \<Rightarrow> ('a \<Rightarrow> outcome) \<Rightarrow> outcome" where
  "with_value x db f = (case x of Inl e \<Rightarrow> (Some e, db) | Inr v \<Rightarrow> f v)"

text \<open>\<^verbatim>\<open>INSERT INTO t (cols) VALUES (:cols)\<close>\<close>

definition insert_row :: "string \<Rightarrow> string list \<Rightarrow> row \<Rightarrow> tables \<Rightarrow> outcome" where
  "insert_row t cols vals db =
     (let r = (\<lambda>c. if c \<in> set cols then vals c else SNull)
      in if pk_ok db t r \<and> fk_ok db t cols r then (None, db(t := db t @ [r]))
         else (Some StorageError, db))"

text \<open>\<^verbatim>\<open>UPDATE t SET upd = :upd WHERE keys = :keys\<close>\<close>

definition update_rows :: "string \<Rightarrow> string list \<Rightarrow> string list \<Rightarrow> row \<Rightarrow> tables \<Rightarrow> outcome" where
  "update_rows t keys upd vals db =
     (let new = (\<lambda>r c. if c \<in> set upd then vals c else r c)
      in if list_all (\<lambda>r. \<not> matches keys vals r \<or> fk_ok db t upd (new r)) (db t)
         then (None, db(t := map (\<lambda>r. if matches keys vals r then new r else r) (db t)))
         else (Some StorageError, db))"

text \<open>
  The three shapes of statement the loader sends. A plain INSERT lists each column with
  the name of the parameter it takes; the guarded statements name every parameter after
  its column.
\<close>

datatype query =
    Insert string "(string \<times> string) list"
  | IfNotExistsInsert string "string list" "string list"
  | IfNotExistsInsertElseUpdate string "string list" "string list" "string list"

fun execute_query :: "query \<Rightarrow> params \<Rightarrow> tables \<Rightarrow> outcome" where
  "execute_query (Insert t cps) ps db =
     with_value (bind_params (map snd cps) ps) db (\<lambda>vals.
       insert_row t (map fst cps)
         (\<lambda>c. case map_of cps c of Some p \<Rightarrow> vals p | None \<Rightarrow> SNull) db)"
| "execute_query (IfNotExistsInsert t keys cols) ps db =
     with_value (bind_params (keys @ cols) ps) db (\<lambda>vals.
       if list_ex (matches keys vals) (db t) then (None, db)
       else insert_row t cols vals db)"
| "execute_query (IfNotExistsInsertElseUpdate t keys cols upd) ps db =
     with_value (bind_params (keys @ cols @ upd) ps) db (\<lambda>vals.
       if list_ex (matches keys vals) (db t) then update_rows t keys upd vals db
       else insert_row t cols vals db)"

section \<open>The loader\<close>

text \<open>
  What the loader takes from outside the repository: the file system read by
  \<^verbatim>\<open>load_from_json\<close> (\<open>None\<close> when the file cannot be read or parsed), whether
  \<^verbatim>\<open>connect\<close> succeeds, the clock, and the two date parsers of \<^verbatim>\<open>datetime\<close> (\<open>None\<close>
  when they raise).
\<close>

record env =
  load_from_json :: "string \<Rightarrow> json option"
  connect_ok :: bool
  now :: date
  strptime_ymd :: "string \<Rightarrow> date option"
  fromisoformat :: "string \<Rightarrow> date option"

subsection \<open>The statements\<close>

definition save_raw_json_query :: query where
  "save_raw_json_query =
     Insert ''raw_json_data''
       [(''game_id'', ''game_id''), (''data_type'', ''data_type''),
        (''json_data'', ''json_data''), (''extraction_timestamp'', ''timestamp'')]"

definition insert_team_query :: query where
  "insert_team_query =
     IfNotExistsInsert ''teams'' [''team_id'']
       [''team_id'', ''team_name'', ''abbreviation'', ''league'', ''division'']"

definition insert_player_query :: query where
  "insert_player_query =
     IfNotExistsInsert ''players'' [''player_id'']
       [''player_id'', ''player_name'', ''team_id'', ''position'']"

definition game_columns :: "string list" where
  "game_columns =
     [''game_id'', ''game_date'', ''home_team_id'', ''away_team_id'', ''home_score'',
      ''away_score'', ''inning'', ''inning_state'', ''game_status'', ''game_type'',
      ''series_description'', ''official_date'']"

text \<open>The statement of \<^verbatim>\<open>_insert_game\<close> and of \<^verbatim>\<open>_insert_game_from_schedule\<close>, which
  send the same text.\<close>

definition game_update_columns :: "string list" where
  "game_update_columns =
     [''game_date'', ''home_score'', ''away_score'', ''inning'', ''inning_state'',
      ''game_status'', ''game_type'', ''series_description'', ''official_date'']"

definition insert_game_query :: query where
  "insert_game_query =
     IfNotExistsInsertElseUpdate ''games'' [''game_id''] game_columns game_update_columns"

text \<open>The statement of \<^verbatim>\<open>_insert_scheduled_game\<close>.\<close>

definition insert_scheduled_game_query :: query where
  "insert_scheduled_game_query =
     IfNotExistsInsertElseUpdate ''games'' [''game_id''] game_columns
       [''game_date'', ''home_team_id'', ''away_team_id'', ''home_score'', ''away_score'',
        ''inning'', ''inning_state'', ''game_status'', ''game_type'', ''series_description'',
        ''official_date'']"

definition boxscore_columns :: "string list" where
  "boxscore_columns =
     [''game_id'', ''player_id'', ''team_id'', ''at_bats'', ''runs'', ''hits'', ''doubles'',
      ''triples'', ''home_runs'', ''rbi'', ''walks'', ''strikeouts'']"

definition insert_boxscore_stats_query :: query where
  "insert_boxscore_stats_query =
     IfNotExistsInsert ''boxscore'' [''game_id'', ''player_id''] boxscore_columns"

subsection \<open>Writers\<close>

definition save_raw_json :: "env \<Rightarrow> json \<Rightarrow> string \<Rightarrow> json \<Rightarrow> tables \<Rightarrow> outcome" where
  "save_raw_json ev game_id data_type data db =
     execute_query save_raw_json_query
       [(''game_id'', PJson game_id), (''data_type'', PJson (JStr data_type)),
        (''json_data'', PDumps data), (''timestamp'', PDate (now ev))] db"

definition team_params :: "json \<Rightarrow> error + params" where
  "team_params team_data =
     bindE (get0 team_data ''id'') (\<lambda>team_id.
     bindE (get0 team_data ''name'') (\<lambda>team_name.
     bindE (get0 team_data ''abbreviation'') (\<lambda>abbreviation.
     bindE (get_in team_data ''league'' ''name'' JNull) (\<lambda>league.
     bindE (get_in team_data ''division'' ''name'' JNull) (\<lambda>division.
       Inr [(''team_id'', PJson team_id), (''team_name'', PJson team_name),
            (''abbreviation'', PJson abbreviation), (''league'', PJson league),
            (''division'', PJson division)])))))"

definition insert_team :: "json \<Rightarrow> tables \<Rightarrow> outcome" where
  "insert_team team_data db =
     with_value (team_params team_data) db (\<lambda>ps. execute_query insert_team_query ps db)"

definition player_params :: "json \<Rightarrow> json \<Rightarrow> error + params" where
  "player_params player_data team_id =
     bindE (get0 player_data ''id'') (\<lambda>player_id.
     bindE (get0 player_data ''fullName'') (\<lambda>player_name.
     bindE (get_in player_data ''primaryPosition'' ''name'' JNull) (\<lambda>position.
       Inr [(''player_id'', PJson player_id), (''player_name'', PJson player_name),
            (''team_id'', PJson team_id), (''position'', PJson position)])))"

definition insert_player :: "json \<Rightarrow> json \<Rightarrow> tables \<Rightarrow> outcome" where
  "insert_player player_data team_id db =
     with_value (player_params player_data team_id) db
       (\<lambda>ps. execute_query insert_player_query ps db)"

text \<open>The date \<^verbatim>\<open>_insert_game\<close> stores: the caller's, else the payload's, else today's.\<close>

definition date_of_gameDate :: "env \<Rightarrow> json \<Rightarrow> pyval" where
  "date_of_gameDate ev game_datetime =
     (if py_truthy game_datetime then
        (case game_datetime of
           JStr s \<Rightarrow>
             (case fromisoformat ev (replace_Z s) of
                None \<Rightarrow> PDate (now ev)
              | Some d \<Rightarrow> PDate d)
         | _ \<Rightarrow> PDate (now ev))
      else PDate (now ev))"

definition parsed_date :: "env \<Rightarrow> json \<Rightarrow> json \<Rightarrow> error + pyval" where
  "parsed_date ev game_data game_date =
     (if py_truthy game_date then
        (case game_date of
           JStr s \<Rightarrow> (case strptime_ymd ev s of None \<Rightarrow> Inl ValueError | Some d \<Rightarrow> Inr (PDate d))
         | _ \<Rightarrow> Inr (PJson game_date))
      else
        bindE (get0 game_data ''gameDate'') (\<lambda>game_datetime.
          Inr (date_of_gameDate ev game_datetime)))"

definition game_status_of :: "json \<Rightarrow> json" where
  "game_status_of current_inning =
     (if py_truthy current_inning then JStr ''Live'' else JStr ''Final'')"

definition game_params ::
  "env \<Rightarrow> json \<Rightarrow> json \<Rightarrow> json \<Rightarrow> json \<Rightarrow> json \<Rightarrow> json \<Rightarrow> error + params" where
  "game_params ev game_id game_data home_team away_team game_date game_metadata0 =
     bindE (py_get game_data ''teams'' (JObj [])) (\<lambda>teams_data.
     bindE (get_in teams_data ''home'' ''runs'' (JInt 0)) (\<lambda>home_score.
     bindE (get_in teams_data ''away'' ''runs'' (JInt 0)) (\<lambda>away_score.
     let game_metadata = (if game_metadata0 = JNull then JObj [] else game_metadata0) in
     bindE (parsed_date ev game_data game_date) (\<lambda>pdate.
     bindE (get0 home_team ''id'') (\<lambda>home_team_id.
     bindE (get0 away_team ''id'') (\<lambda>away_team_id.
     bindE (get0 game_data ''currentInning'') (\<lambda>inning.
     bindE (get0 game_data ''inningState'') (\<lambda>inning_state.
     bindE (get0 game_metadata ''game_type'') (\<lambda>m_type.
     bindE (get0 game_data ''gameType'') (\<lambda>d_type.
     bindE (get0 game_metadata ''series_description'') (\<lambda>m_series.
     bindE (get0 game_data ''seriesDescription'') (\<lambda>d_series.
     bindE (get0 game_metadata ''official_date'') (\<lambda>m_official.
     bindE (get0 game_data ''officialDate'') (\<lambda>d_official.
       Inr [(''game_id'', PJson game_id), (''game_date'', pdate),
            (''home_team_id'', PJson home_team_id), (''away_team_id'', PJson away_team_id),
            (''home_score'', PJson home_score), (''away_score'', PJson away_score),
            (''inning'', PJson inning), (''inning_state'', PJson inning_state),
            (''game_status'', PJson (game_status_of inning)),
            (''game_type'', PJson (py_or m_type d_type)),
            (''series_description'', PJson (py_or m_series d_series)),
            (''official_date'', PJson (py_or m_official d_official))]))))))))))))))"

definition insert_game ::
  "env \<Rightarrow> json \<Rightarrow> json \<Rightarrow> json \<Rightarrow> json \<Rightarrow> json \<Rightarrow> json \<Rightarrow> tables \<Rightarrow> outcome" where
  "insert_game ev game_id game_data home_team away_team game_date game_metadata db =
     with_value (game_params ev game_id game_data home_team away_team game_date game_metadata) db
       (\<lambda>ps. execute_query insert_game_query ps db)"

definition boxscore_params :: "json \<Rightarrow> json \<Rightarrow> json \<Rightarrow> json \<Rightarrow> error + params" where
  "boxscore_params game_id player_id team_id batting_stats =
     bindE (py_get batting_stats ''atBats'' (JInt 0)) (\<lambda>at_bats.
     bindE (py_get batting_stats ''runs'' (JInt 0)) (\<lambda>runs.
     bindE (py_get batting_stats ''hits'' (JInt 0)) (\<lambda>hits.
     bindE (py_get batting_stats ''doubles'' (JInt 0)) (\<lambda>doubles.
     bindE (py_get batting_stats ''triples'' (JInt 0)) (\<lambda>triples.
     bindE (py_get batting_stats ''homeRuns'' (JInt 0)) (\<lambda>home_runs.
     bindE (py_get batting_stats ''rbi'' (JInt 0)) (\<lambda>rbi.
     bindE (py_get batting_stats ''walks'' (JInt 0)) (\<lambda>walks.
     bindE (py_get batting_stats ''strikeOuts'' (JInt 0)) (\<lambda>strikeouts.
       Inr [(''game_id'', PJson game_id), (''player_id'', PJson player_id),
            (''team_id'', PJson team_id), (''at_bats'', PJson at_bats), (''runs'', PJson runs),
            (''hits'', PJson hits), (''doubles'', PJson doubles), (''triples'', PJson triples),
            (''home_runs'', PJson home_runs), (''rbi'', PJson rbi), (''walks'', PJson walks),
            (''strikeouts'', PJson strikeouts)])))))))))"

definition insert_boxscore_stats :: "json \<Rightarrow> json \<Rightarrow> json \<Rightarrow> json \<Rightarrow> tables \<Rightarrow> outcome" where
  "insert_boxscore_stats game_id player_id team_id batting_stats db =
     with_value (boxscore_params game_id player_id team_id batting_stats) db
       (\<lambda>ps. execute_query insert_boxscore_stats_query ps db)"

subsection \<open>Processing a payload\<close>

definition process_game_data :: "env \<Rightarrow> json \<Rightarrow> json \<Rightarrow> json \<Rightarrow> json \<Rightarrow> tables \<Rightarrow> outcome" where
  "process_game_data ev game_id game_data game_date game_metadata db =
     with_value (py_get game_data ''teams'' (JObj [])) db (\<lambda>teams_data.
     with_value (get_in teams_data ''home'' ''team'' (JObj [])) db (\<lambda>home_team.
     with_value (get_in teams_data ''away'' ''team'' (JObj [])) db (\<lambda>away_team.
       and_then (if py_truthy home_team then insert_team home_team db else (None, db)) (\<lambda>db.
       and_then (if py_truthy away_team then insert_team away_team db else (None, db)) (\<lambda>db.
         insert_game ev game_id game_data home_team away_team game_date game_metadata db)))))"

text \<open>The body of the loop over \<^verbatim>\<open>players.items()\<close> for a key that starts with ID.\<close>

definition process_player :: "json \<Rightarrow> json \<Rightarrow> json \<Rightarrow> tables \<Rightarrow> outcome" where
  "process_player game_id team_info player_data db =
     with_value (py_get player_data ''person'' (JObj [])) db (\<lambda>person.
     with_value (py_get player_data ''stats'' (JObj [])) db (\<lambda>stats.
       and_then
         (if py_truthy person then
            with_value (get0 team_info ''id'') db (\<lambda>team_id. insert_player person team_id db)
          else (None, db)) (\<lambda>db.
       with_value (py_get stats ''batting'' (JObj [])) db (\<lambda>batting.
         if py_truthy batting then
           with_value (get0 person ''id'') db (\<lambda>player_id.
           with_value (get0 team_info ''id'') db (\<lambda>team_id.
             insert_boxscore_stats game_id player_id team_id batting db))
         else (None, db)))))"

fun process_players :: "json \<Rightarrow> json \<Rightarrow> (string \<times> json) list \<Rightarrow> tables \<Rightarrow> outcome" where
  "process_players game_id team_info [] db = (None, db)"
| "process_players game_id team_info ((player_key, player_data) # rest) db =
     (if startswith player_key ''ID'' then
        and_then (process_player game_id team_info player_data db)
          (process_players game_id team_info rest)
      else process_players game_id team_info rest db)"

text \<open>The body of the loop over \<^verbatim>\<open>['home', 'away']\<close>.\<close>

definition process_team :: "json \<Rightarrow> json \<Rightarrow> string \<Rightarrow> tables \<Rightarrow> outcome" where
  "process_team game_id teams team_type db =
     with_value (py_get teams team_type (JObj [])) db (\<lambda>team_data.
     with_value (py_get team_data ''team'' (JObj [])) db (\<lambda>team_info.
     with_value (py_get team_data ''players'' (JObj [])) db (\<lambda>players.
       and_then (if py_truthy team_info then insert_team team_info db else (None, db)) (\<lambda>db.
         with_value (py_items players) db (\<lambda>items.
           process_players game_id team_info items db)))))"

definition process_boxscore_data :: "json \<Rightarrow> json \<Rightarrow> tables \<Rightarrow> outcome" where
  "process_boxscore_data game_id boxscore_data db =
     with_value (py_get boxscore_data ''teams'' (JObj [])) db (\<lambda>teams.
       and_then (process_team game_id teams ''home'' db) (process_team game_id teams ''away''))"

subsection \<open>Recovering the game identifier\<close>

text \<open>The loop over \<^verbatim>\<open>data.items()\<close> of \<^verbatim>\<open>_extract_game_id_from_data\<close>.\<close>

fun probe_nested :: "(string \<times> json) list \<Rightarrow> json" where
  "probe_nested [] = JNull"
| "probe_nested ((key, val) # rest) =
     (case val of
        JObj kvs \<Rightarrow> (case map_of kvs ''gamePk'' of Some g \<Rightarrow> g | None \<Rightarrow> probe_nested rest)
      | _ \<Rightarrow> probe_nested rest)"

definition extract_game_id_from_data :: "json \<Rightarrow> json" where
  "extract_game_id_from_data data =
     (case data of
        JObj kvs \<Rightarrow>
          (case map_of kvs ''game_id'' of
             Some g \<Rightarrow> g
           | None \<Rightarrow>
               (case map_of kvs ''gamePk'' of
                  Some g \<Rightarrow> g
                | None \<Rightarrow> probe_nested kvs))
      | _ \<Rightarrow> JNull)"

subsection \<open>Loading a file\<close>

text \<open>
  The result of a loader entry point: what the caller receives (\<open>Inl\<close> an exception that
  reaches the caller, \<open>Inr\<close> the value returned) and the tables as they are stored once
  the connection is closed.
\<close>

type_synonym result = "(error + bool) \<times> tables"

text \<open>The statements inside \<^verbatim>\<open>with self.db.connection.begin()\<close>.\<close>

definition combined_transaction :: "env \<Rightarrow> json \<Rightarrow> json \<Rightarrow> json \<Rightarrow> json \<Rightarrow> tables \<Rightarrow> outcome" where
  "combined_transaction ev data game_id game_date game_metadata db =
     and_then (save_raw_json ev game_id ''combined'' data db) (\<lambda>db.
     and_then
       (with_value (py_in ''game_data'' data) db (\<lambda>present.
          if present then
            with_value (py_index data ''game_data'') db (\<lambda>game_data.
              process_game_data ev game_id game_data game_date game_metadata db)
          else (None, db))) (\<lambda>db.
       with_value (py_in ''boxscore'' data) db (\<lambda>present.
         if present then
           with_value (py_index data ''boxscore'') db (\<lambda>boxscore.
             process_boxscore_data game_id boxscore db)
         else (None, db))))"

text \<open>
  \<^verbatim>\<open>_load_combined_data\<close>: the transaction commits when its block ends and is rolled back
  when the block raises; every exception becomes the return value \<^verbatim>\<open>False\<close>.
\<close>

definition combined_metadata :: "json \<Rightarrow> error + json" where
  "combined_metadata data =
     bindE (get0 data ''game_type'') (\<lambda>game_type.
     bindE (get0 data ''official_date'') (\<lambda>official_date.
     bindE (get0 data ''series_description'') (\<lambda>series_description.
       Inr (JObj [(''game_type'', game_type), (''official_date'', official_date),
                  (''series_description'', series_description)]))))"

definition load_combined_data :: "env \<Rightarrow> json \<Rightarrow> tables \<Rightarrow> result" where
  "load_combined_data ev data store =
     (case bindE (get0 data ''game_id'') (\<lambda>game_id.
           bindE (get0 data ''game_date'') (\<lambda>game_date.
           bindE (combined_metadata data) (\<lambda>game_metadata.
             Inr (game_id, game_date, game_metadata)))) of
        Inl e \<Rightarrow> (Inr False, store)
      | Inr (game_id, game_date, game_metadata) \<Rightarrow>
          (case combined_transaction ev data game_id game_date game_metadata store of
             (None, db) \<Rightarrow> (Inr True, db)
           | (Some e, db) \<Rightarrow> (Inr False, store)))"

text \<open>
  The two raw loaders and the schedule loader open no transaction. \<^verbatim>\<open>connect\<close> creates
  its engine with no isolation level, so the connection commits nothing by itself;
  \<^verbatim>\<open>DatabaseConnection.commit\<close> is empty and the loader never calls it. What such a
  loader writes is seen by its own connection and is discarded when \<^verbatim>\<open>disconnect\<close>
  closes it: the stored tables are those from before the load.
\<close>

definition without_transaction :: "tables \<Rightarrow> outcome \<Rightarrow> result" where
  "without_transaction store r =
     (case r of
        (None, db) \<Rightarrow> (Inr True, store)
      | (Some e, db) \<Rightarrow> (Inr False, store))"

definition boxscore_statements :: "env \<Rightarrow> json \<Rightarrow> tables \<Rightarrow> outcome" where
  "boxscore_statements ev data db =
     (let game_id = extract_game_id_from_data data in
      and_then (save_raw_json ev game_id ''boxscore'' data db) (\<lambda>db.
        process_boxscore_data game_id data db))"

definition load_boxscore_data :: "env \<Rightarrow> json \<Rightarrow> tables \<Rightarrow> result" where
  "load_boxscore_data ev data store =
     without_transaction store (boxscore_statements ev data store)"

definition game_statements :: "env \<Rightarrow> json \<Rightarrow> tables \<Rightarrow> outcome" where
  "game_statements ev data db =
     (let game_id = extract_game_id_from_data data in
      and_then (save_raw_json ev game_id ''game_data'' data db) (\<lambda>db.
        process_game_data ev game_id data JNull JNull db))"

definition load_game_data :: "env \<Rightarrow> json \<Rightarrow> tables \<Rightarrow> result" where
  "load_game_data ev data store =
     without_transaction store (game_statements ev data store)"

definition load_json_to_database :: "env \<Rightarrow> string \<Rightarrow> tables \<Rightarrow> result" where
  "load_json_to_database ev json_file_path store =
     (case load_from_json ev json_file_path of
        None \<Rightarrow> (Inr False, store)
      | Some data \<Rightarrow>
          if \<not> py_truthy data then (Inr False, store)
          else if \<not> connect_ok ev then (Inr False, store)
          else if py_in_str ''combined_data'' json_file_path then load_combined_data ev data store
          else if py_in_str ''boxscore_raw'' json_file_path then load_boxscore_data ev data store
          else if py_in_str ''game_raw'' json_file_path then load_game_data ev data store
          else (Inr False, store))"

subsection \<open>Loading a schedule\<close>

text \<open>\<^verbatim>\<open>d.get(k1, {}).get(k2, {}).get(k3, default)\<close>\<close>

definition get_in3 :: "json \<Rightarrow> string \<Rightarrow> string \<Rightarrow> string \<Rightarrow> json \<Rightarrow> error + json" where
  "get_in3 d k1 k2 k3 dflt = bindE (get_in d k1 k2 (JObj [])) (\<lambda>x. py_get x k3 dflt)"

definition schedule_game_params :: "env \<Rightarrow> json \<Rightarrow> json \<Rightarrow> json \<Rightarrow> error + params" where
  "schedule_game_params ev game_id game_data game_date =
     bindE (case game_date of
              JStr s \<Rightarrow> (case strptime_ymd ev s of None \<Rightarrow> Inl ValueError | Some d \<Rightarrow> Inr (PDate d))
            | _ \<Rightarrow> Inr (PJson game_date)) (\<lambda>pdate.
     bindE (py_get game_data ''teams'' (JObj [])) (\<lambda>teams_data.
     bindE (get_in teams_data ''home'' ''team'' (JObj [])) (\<lambda>home_team.
     bindE (get_in teams_data ''away'' ''team'' (JObj [])) (\<lambda>away_team.
     bindE (py_get game_data ''linescore'' (JObj [])) (\<lambda>linescore.
     bindE (get_in3 linescore ''teams'' ''home'' ''runs'' (JInt 0)) (\<lambda>home_score.
     bindE (get_in3 linescore ''teams'' ''away'' ''runs'' (JInt 0)) (\<lambda>away_score.
     bindE (py_get game_data ''status'' (JObj [])) (\<lambda>status.
     bindE (py_get status ''abstractGameState'' (JStr ''Unknown'')) (\<lambda>abstract_state.
     bindE (py_get status ''detailedState'' abstract_state) (\<lambda>game_status.
     bindE (get0 home_team ''id'') (\<lambda>home_team_id.
     bindE (get0 away_team ''id'') (\<lambda>away_team_id.
     bindE (get0 linescore ''currentInning'') (\<lambda>inning.
     bindE (get0 linescore ''inningState'') (\<lambda>inning_state.
     bindE (get0 game_data ''gameType'') (\<lambda>game_type.
     bindE (get0 game_data ''seriesDescription'') (\<lambda>series_description.
     bindE (get0 game_data ''officialDate'') (\<lambda>official_date.
       Inr [(''game_id'', PJson game_id), (''game_date'', pdate),
            (''home_team_id'', PJson home_team_id), (''away_team_id'', PJson away_team_id),
            (''home_score'', PJson home_score), (''away_score'', PJson away_score),
            (''inning'', PJson inning), (''inning_state'', PJson inning_state),
            (''game_status'', PJson game_status), (''game_type'', PJson game_type),
            (''series_description'', PJson series_description),
            (''official_date'', PJson official_date)])))))))))))))))))"

definition insert_game_from_schedule :: "env \<Rightarrow> json \<Rightarrow> json \<Rightarrow> json \<Rightarrow> tables \<Rightarrow> outcome" where
  "insert_game_from_schedule ev game_id game_data game_date db =
     with_value (schedule_game_params ev game_id game_data game_date) db
       (\<lambda>ps. execute_query insert_game_query ps db)"

text \<open>The \<^verbatim>\<open>try\<close> block run for one game of the schedule.\<close>

definition schedule_game :: "env \<Rightarrow> json \<Rightarrow> json \<Rightarrow> tables \<Rightarrow> outcome" where
  "schedule_game ev game_date game db =
     with_value (get0 game ''gamePk'') db (\<lambda>game_id.
     with_value (get_in3 game ''teams'' ''home'' ''team'' (JObj [])) db (\<lambda>home_team.
     with_value (get_in3 game ''teams'' ''away'' ''team'' (JObj [])) db (\<lambda>away_team.
       and_then (if py_truthy home_team then insert_team home_team db else (None, db)) (\<lambda>db.
       and_then (if py_truthy away_team then insert_team away_team db else (None, db)) (\<lambda>db.
         insert_game_from_schedule ev game_id game game_date db)))))"

text \<open>
  The loop over the games of one date. An exception of the \<^verbatim>\<open>try\<close> block is caught; the
  handler prints \<^verbatim>\<open>game.get('gamePk')\<close>, which raises again when the game is no dict, and
  goes on with the next game.
\<close>

fun schedule_games :: "env \<Rightarrow> json \<Rightarrow> json list \<Rightarrow> tables \<Rightarrow> outcome" where
  "schedule_games ev game_date [] db = (None, db)"
| "schedule_games ev game_date (game # rest) db =
     (case schedule_game ev game_date game db of
        (None, db') \<Rightarrow> schedule_games ev game_date rest db'
      | (Some e, db') \<Rightarrow>
          with_value (get0 game ''gamePk'') db' (\<lambda>pk. schedule_games ev game_date rest db'))"

fun schedule_dates :: "env \<Rightarrow> json list \<Rightarrow> tables \<Rightarrow> outcome" where
  "schedule_dates ev [] db = (None, db)"
| "schedule_dates ev (date_entry # rest) db =
     with_value (get0 date_entry ''date'') db (\<lambda>game_date.
     with_value (py_get date_entry ''games'' (JArr [])) db (\<lambda>games.
     with_value (py_iter games) db (\<lambda>game_list.
       and_then (schedule_games ev game_date game_list db) (schedule_dates ev rest))))"

text \<open>
  \<^verbatim>\<open>load_schedule_data\<close> as the class ends up defining it: the second \<^verbatim>\<open>def\<close> of that
  name replaces the first. It opens no transaction.
\<close>

definition schedule_statements :: "env \<Rightarrow> json \<Rightarrow> tables \<Rightarrow> outcome" where
  "schedule_statements ev schedule_data db =
     with_value (py_get schedule_data ''dates'' (JArr [])) db (\<lambda>dates.
     with_value (py_iter dates) db (\<lambda>date_list. schedule_dates ev date_list db))"

definition load_schedule_data :: "env \<Rightarrow> json \<Rightarrow> tables \<Rightarrow> result" where
  "load_schedule_data ev schedule_data store =
     (if \<not> connect_ok ev then (Inr False, store)
      else without_transaction store (schedule_statements ev schedule_data store))"

section \<open>Notions the statements use\<close>

text \<open>The table a statement writes.\<close>

fun table_of :: "query \<Rightarrow> string" where
  "table_of (Insert t cps) = t"
| "table_of (IfNotExistsInsert t keys cols) = t"
| "table_of (IfNotExistsInsertElseUpdate t keys cols upd) = t"

text \<open>A step leaves table \<open>t\<close> alone, whatever its outcome.\<close>

definition frames :: "string \<Rightarrow> (tables \<Rightarrow> outcome) \<Rightarrow> bool" where
  "frames t f = (\<forall>db r db'. f db = (r, db') \<longrightarrow> db' t = db t)"

text \<open>
  The shape of a schedule-API response: an object whose \<^verbatim>\<open>dates\<close>, when present, is a list
  of objects whose \<^verbatim>\<open>games\<close>, when present, is a list of objects.
\<close>

definition date_shaped :: "json \<Rightarrow> bool" where
  "date_shaped date_entry =
     (case date_entry of
        JObj kvs \<Rightarrow>
          (case map_of kvs ''games'' of
             None \<Rightarrow> True
           | Some (JArr games) \<Rightarrow> list_all is_dict games
           | Some _ \<Rightarrow> False)
      | _ \<Rightarrow> False)"

definition schedule_shaped :: "json \<Rightarrow> bool" where
  "schedule_shaped schedule_data =
     (case schedule_data of
        JObj kvs \<Rightarrow>
          (case map_of kvs ''dates'' of
             None \<Rightarrow> True
           | Some (JArr dates) \<Rightarrow> list_all date_shaped dates
           | Some _ \<Rightarrow> False)
      | _ \<Rightarrow> False)"

text \<open>
  The run of the schedule loop: every game of every date goes through the \<^verbatim>\<open>try\<close> block,
  in document order, each from the tables the game before it left behind, whether that
  one raised or not.
\<close>

definition date_of :: "json \<Rightarrow> json" where
  "date_of date_entry = (case get0 date_entry ''date'' of Inr d \<Rightarrow> d | Inl e \<Rightarrow> JNull)"

definition games_of :: "json \<Rightarrow> json list" where
  "games_of date_entry =
     (case bindE (py_get date_entry ''games'' (JArr [])) py_iter of
        Inr game_list \<Rightarrow> game_list
      | Inl e \<Rightarrow> [])"

definition dates_of :: "json \<Rightarrow> json list" where
  "dates_of schedule_data =
     (case bindE (py_get schedule_data ''dates'' (JArr [])) py_iter of
        Inr date_list \<Rightarrow> date_list
      | Inl e \<Rightarrow> [])"

definition run_games :: "env \<Rightarrow> json \<Rightarrow> json list \<Rightarrow> tables \<Rightarrow> tables" where
  "run_games ev game_date games db =
     foldl (\<lambda>db game. snd (schedule_game ev game_date game db)) db games"

definition run_schedule :: "env \<Rightarrow> json \<Rightarrow> tables \<Rightarrow> tables" where
  "run_schedule ev schedule_data db =
     foldl (\<lambda>db date_entry. run_games ev (date_of date_entry) (games_of date_entry) db) db
       (dates_of schedule_data)"

text \<open>
  The boxscore lines of a payload: the rows that \<^verbatim>\<open>_process_boxscore_data\<close> hands to
  \<^verbatim>\<open>_insert_boxscore_stats\<close>, in call order, each as the driver binds it. The functions
  follow the loops of the loader without touching the tables; where the loader would
  raise, the list ends.
\<close>

definition bindL :: "error + 'a \<Rightarrow> ('a \<Rightarrow> 'b list) \<Rightarrow> 'b list" where
  "bindL x f = (case x of Inl e \<Rightarrow> [] | Inr v \<Rightarrow> f v)"

definition player_line :: "json \<Rightarrow> json \<Rightarrow> json \<Rightarrow> row list" where
  "player_line game_id team_info player_data =
     bindL (py_get player_data ''person'' (JObj [])) (\<lambda>person.
     bindL (py_get player_data ''stats'' (JObj [])) (\<lambda>stats.
     bindL (py_get stats ''batting'' (JObj [])) (\<lambda>batting.
       if py_truthy batting then
         bindL (get0 person ''id'') (\<lambda>player_id.
         bindL (get0 team_info ''id'') (\<lambda>team_id.
         bindL (boxscore_params game_id player_id team_id batting) (\<lambda>ps.
         bindL (bind_params boxscore_columns ps) (\<lambda>vals. [vals]))))
       else [])))"

fun player_lines :: "json \<Rightarrow> json \<Rightarrow> (string \<times> json) list \<Rightarrow> row list" where
  "player_lines game_id team_info [] = []"
| "player_lines game_id team_info ((player_key, player_data) # rest) =
     (if startswith player_key ''ID'' then player_line game_id team_info player_data else [])
       @ player_lines game_id team_info rest"

definition team_lines :: "json \<Rightarrow> json \<Rightarrow> string \<Rightarrow> row list" where
  "team_lines game_id teams team_type =
     bindL (py_get teams team_type (JObj [])) (\<lambda>team_data.
     bindL (py_get team_data ''team'' (JObj [])) (\<lambda>team_info.
     bindL (py_get team_data ''players'' (JObj [])) (\<lambda>players.
     bindL (py_items players) (\<lambda>items. player_lines game_id team_info items))))"

definition boxscore_lines :: "json \<Rightarrow> json \<Rightarrow> row list" where
  "boxscore_lines game_id boxscore_data =
     bindL (py_get boxscore_data ''teams'' (JObj [])) (\<lambda>teams.
       team_lines game_id teams ''home'' @ team_lines game_id teams ''away'')"

definition combined_lines :: "json \<Rightarrow> row list" where
  "combined_lines data =
     bindL (get0 data ''game_id'') (\<lambda>game_id.
     bindL (py_in ''boxscore'' data) (\<lambda>present.
       if present then
         bindL (py_index data ''boxscore'') (\<lambda>boxscore. boxscore_lines game_id boxscore)
       else []))"

text \<open>The guard of the boxscore statement, and the effect of the statement on the table.\<close>

definition same_line :: "row \<Rightarrow> row \<Rightarrow> bool" where
  "same_line a b =
     (sql_eq (a ''game_id'') (b ''game_id'') \<and> sql_eq (a ''player_id'') (b ''player_id''))"

definition add_line :: "row list \<Rightarrow> row \<Rightarrow> row list" where
  "add_line rows r = (if list_ex (\<lambda>r'. same_line r' r) rows then rows else rows @ [r])"

text \<open>
  The Game row of a combined payload: the parameters \<^verbatim>\<open>_load_combined_data\<close> and
  \<^verbatim>\<open>_process_game_data\<close> make \<^verbatim>\<open>_insert_game\<close> compute, and the row the driver binds
  from them.
\<close>

definition combined_game_params :: "env \<Rightarrow> json \<Rightarrow> error + params" where
  "combined_game_params ev data =
     bindE (get0 data ''game_id'') (\<lambda>game_id.
     bindE (get0 data ''game_date'') (\<lambda>game_date.
     bindE (combined_metadata data) (\<lambda>game_metadata.
     bindE (py_index data ''game_data'') (\<lambda>game_data.
     bindE (py_get game_data ''teams'' (JObj [])) (\<lambda>teams_data.
     bindE (get_in teams_data ''home'' ''team'' (JObj [])) (\<lambda>home_team.
     bindE (get_in teams_data ''away'' ''team'' (JObj [])) (\<lambda>away_team.
       game_params ev game_id game_data home_team away_team game_date game_metadata)))))))"

definition combined_game_row :: "env \<Rightarrow> json \<Rightarrow> error + row" where
  "combined_game_row ev data = bindE (combined_game_params ev data) (bind_params game_columns)"

section \<open>Sample inputs\<close>

text \<open>The store before anything was loaded.\<close>

definition empty_db :: tables where
  "empty_db = (\<lambda>t. [])"

text \<open>An environment for concrete runs: the connection succeeds, the clock shows
  2025-01-01, and one date string parses.\<close>

definition sample_env :: env where
  "sample_env =
     \<lparr>load_from_json = (\<lambda>p. None), connect_ok = True,
      now = (2025, 1, 1),
      strptime_ymd = (\<lambda>s. if s = ''2024-04-10'' then Some (2024, 4, 10) else None),
      fromisoformat = (\<lambda>s. None)\<rparr>"

text \<open>A game summary with home team 10 (3 runs), away team 20 (1 run) and the given
  current inning.\<close>

definition game_data_with_inning :: "json \<Rightarrow> json" where
  "game_data_with_inning inning =
     JObj [(''teams'',
            JObj [(''home'', JObj [(''team'', JObj [(''id'', JInt 10), (''name'', JStr ''A'')]),
                                   (''runs'', JInt 3)]),
                  (''away'', JObj [(''team'', JObj [(''id'', JInt 20), (''name'', JStr ''B'')]),
                                   (''runs'', JInt 1)])]),
           (''currentInning'', inning)]"

text \<open>The same game summary with no inning in progress and the given embedded game type.\<close>

definition game_data_with_type :: "json \<Rightarrow> json" where
  "game_data_with_type game_type =
     JObj [(''teams'',
            JObj [(''home'', JObj [(''team'', JObj [(''id'', JInt 10), (''name'', JStr ''A'')]),
                                   (''runs'', JInt 3)]),
                  (''away'', JObj [(''team'', JObj [(''id'', JInt 20), (''name'', JStr ''B'')]),
                                   (''runs'', JInt 1)])]),
           (''currentInning'', JNull), (''gameType'', game_type)]"

text \<open>The boxscore and the combined payload of the end-to-end scenario (game 700001,
  player 501 with 4 at-bats, 2 hits and 1 home run), with the given top-level and
  embedded game types.\<close>

definition sample_boxscore :: json where
  "sample_boxscore =
     JObj [(''teams'',
            JObj [(''home'',
                   JObj [(''team'', JObj [(''id'', JInt 10), (''name'', JStr ''A'')]),
                         (''players'',
                          JObj [(''ID501'',
                                 JObj [(''person'', JObj [(''id'', JInt 501), (''fullName'', JStr ''X'')]),
                                       (''stats'',
                                        JObj [(''batting'',
                                               JObj [(''atBats'', JInt 4), (''hits'', JInt 2),
                                                     (''homeRuns'', JInt 1)])])])])]),
                  (''away'',
                   JObj [(''team'', JObj [(''id'', JInt 20), (''name'', JStr ''B'')]),
                         (''players'', JObj [])])])]"

definition sample_combined :: "json \<Rightarrow> json \<Rightarrow> json" where
  "sample_combined top_type embedded_type =
     JObj [(''game_id'', JInt 700001), (''game_date'', JStr ''2024-04-10''),
           (''game_type'', top_type), (''boxscore'', sample_boxscore),
           (''game_data'', game_data_with_type embedded_type)]"

text \<open>A scheduled game with no \<^verbatim>\<open>gamePk\<close>, the scheduled game 700002, and a schedule of
  one date that holds the two in this order.\<close>

definition game_without_id :: json where
  "game_without_id =
     JObj [(''teams'',
            JObj [(''home'', JObj [(''team'', JObj [(''id'', JInt 10)])]),
                  (''away'', JObj [(''team'', JObj [(''id'', JInt 20)])])]),
           (''gameType'', JStr ''R'')]"

definition game_700002 :: json where
  "game_700002 =
     JObj [(''gamePk'', JInt 700002),
           (''teams'',
            JObj [(''home'', JObj [(''team'', JObj [(''id'', JInt 10)])]),
                  (''away'', JObj [(''team'', JObj [(''id'', JInt 20)])])]),
           (''gameType'', JStr ''R'')]"

definition schedule_with_failing_game :: json where
  "schedule_with_failing_game =
     JObj [(''dates'',
            JArr [JObj [(''date'', JStr ''2024-04-10''),
                        (''games'', JArr [game_without_id, game_700002])]])]"

text \<open>
  A boxscore document and a combined document for game 700001 between home team
  \<open>home_id\<close> and away team 20, whose only player entry ID501 has the given \<^verbatim>\<open>person\<close>
  and batting line.
\<close>

definition boxscore_with :: "int \<Rightarrow> json \<Rightarrow> json \<Rightarrow> json" where
  "boxscore_with home_id person batting =
     JObj [(''teams'',
            JObj [(''home'',
                   JObj [(''team'', JObj [(''id'', JInt home_id), (''name'', JStr ''A'')]),
                         (''players'',
                          JObj [(''ID501'',
                                 JObj [(''person'', person),
                                       (''stats'', JObj [(''batting'', batting)])])])]),
                  (''away'',
                   JObj [(''team'', JObj [(''id'', JInt 20), (''name'', JStr ''B'')]),
                         (''players'', JObj [])])])]"

definition combined_with :: "int \<Rightarrow> json \<Rightarrow> json \<Rightarrow> json" where
  "combined_with home_id person batting =
     JObj [(''game_id'', JInt 700001), (''game_date'', JStr ''2024-04-10''),
           (''game_type'', JStr ''R''),
           (''boxscore'', boxscore_with home_id person batting),
           (''game_data'',
            JObj [(''teams'',
                   JObj [(''home'', JObj [(''team'', JObj [(''id'', JInt home_id), (''name'', JStr ''A'')]),
                                          (''runs'', JInt 3)]),
                         (''away'', JObj [(''team'', JObj [(''id'', JInt 20), (''name'', JStr ''B'')]),
                                          (''runs'', JInt 1)])]),
                  (''currentInning'', JNull)])]"

definition player_501 :: json where
  "player_501 = JObj [(''id'', JInt 501), (''fullName'', JStr ''X'')]"

text \<open>The sample environment with one readable file.\<close>

definition file_env :: "string \<Rightarrow> json \<Rightarrow> env" where
  "file_env path data =
     sample_env\<lparr>load_from_json := (\<lambda>p. if p = path then Some data else None)\<rparr>"

text \<open>A batting line as the statistics API names its fields.\<close>

definition batting_all :: json where
  "batting_all = JObj [(''atBats'', JInt 3), (''runs'', JInt 1), (''hits'', JInt 2),
     (''baseOnBalls'', JInt 2), (''strikeOuts'', JInt 1), (''hitByPitch'', JInt 1),
     (''sacFlies'', JInt 1), (''sacBunts'', JInt 1)]"

text \<open>A combined document whose player has a name and no id: inserting the player fails.\<close>

definition combined_without_player_id :: json where
  "combined_without_player_id = combined_with 10 (JObj [(''fullName'', JStr ''X'')]) batting_all"

text \<open>
  A combined document for game 700001 with two player entries that both have a batting
  line: ID501 names its person (id 501), ID502 has no \<^verbatim>\<open>person\<close>.
\<close>

definition combined_with_nameless_entry :: json where
  "combined_with_nameless_entry =
     JObj [(''game_id'', JInt 700001), (''game_date'', JStr ''2024-04-10''),
           (''game_type'', JStr ''R''),
           (''boxscore'',
            JObj [(''teams'',
                   JObj [(''home'',
                          JObj [(''team'', JObj [(''id'', JInt 10), (''name'', JStr ''A'')]),
                                (''players'',
                                 JObj [(''ID501'',
                                        JObj [(''person'', player_501),
                                              (''stats'', JObj [(''batting'', batting_all)])]),
                                       (''ID502'',
                                        JObj [(''stats'', JObj [(''batting'', batting_all)])])])]),
                         (''away'',
                          JObj [(''team'', JObj [(''id'', JInt 20), (''name'', JStr ''B'')]),
                                (''players'', JObj [])])])]),
           (''game_data'', game_data_with_type (JStr ''R''))]"

section \<open>The database engine\<close>

lemma bind_params_lookup:
  "bind_params cs ps = Inr vals \<Longrightarrow> c \<in> set cs \<Longrightarrow>
     \<exists>v. map_of ps c = Some v \<and> bind_param v = Inr (vals c)"
proof (induction cs arbitrary: vals)
  case Nil
  then show ?case by simp
next
  case (Cons a cs)
  from Cons.prems(1) obtain v s vals' where
    a: "map_of ps a = Some v" "bind_param v = Inr s" "bind_params cs ps = Inr vals'"
       "vals = vals'(a := s)"
    by (auto split: option.splits sum.splits)
  show ?case
  proof (cases "c = a")
    case True
    with a show ?thesis by simp
  next
    case False
    with Cons.prems(2) have "c \<in> set cs" by simp
    from Cons.IH[OF a(3) this] False a(4) show ?thesis by simp
  qed
qed

lemma execute_query_error_keeps:
  "execute_query q ps db = (Some e, db') \<Longrightarrow> db' = db"
  by (cases q)
     (auto simp: with_value_def insert_row_def update_rows_def Let_def
           split: sum.splits if_splits)

lemma execute_query_frame:
  "execute_query q ps db = (r, db') \<Longrightarrow> t \<noteq> table_of q \<Longrightarrow> db' t = db t"
  by (cases q)
     (auto simp: with_value_def insert_row_def update_rows_def Let_def
           split: sum.splits if_splits)

lemma if_not_exists_insert_cases:
  assumes "execute_query (IfNotExistsInsert t keys cols) ps db = (None, db')"
  obtains vals where "bind_params (keys @ cols) ps = Inr vals"
    "list_ex (matches keys vals) (db t)" "db' = db"
  | vals where "bind_params (keys @ cols) ps = Inr vals"
    "\<not> list_ex (matches keys vals) (db t)"
    "db' = db(t := db t @ [\<lambda>c. if c \<in> set cols then vals c else SNull])"
    "pk_ok db t (\<lambda>c. if c \<in> set cols then vals c else SNull)"
    "fk_ok db t cols (\<lambda>c. if c \<in> set cols then vals c else SNull)"
  using assms
  by (auto simp: with_value_def insert_row_def Let_def split: sum.splits if_splits)

lemma upsert_cases:
  assumes "execute_query (IfNotExistsInsertElseUpdate t keys cols upd) ps db = (None, db')"
  obtains vals where "bind_params (keys @ cols @ upd) ps = Inr vals"
    "list_ex (matches keys vals) (db t)"
    "db' = db(t := map (\<lambda>r. if matches keys vals r then (\<lambda>c. if c \<in> set upd then vals c else r c) else r) (db t))"
  | vals where "bind_params (keys @ cols @ upd) ps = Inr vals"
    "\<not> list_ex (matches keys vals) (db t)"
    "db' = db(t := db t @ [\<lambda>c. if c \<in> set cols then vals c else SNull])"
    "pk_ok db t (\<lambda>c. if c \<in> set cols then vals c else SNull)"
  using assms
  by (auto simp: with_value_def insert_row_def update_rows_def Let_def split: sum.splits if_splits)


lemma bind_params_other:
  "bind_params cs ps = Inr vals \<Longrightarrow> c \<notin> set cs \<Longrightarrow> vals c = SNull"
  by (induction cs arbitrary: vals) (auto split: option.splits sum.splits)

lemma bind_params_total:
  "(\<And>c. c \<in> set cs \<Longrightarrow> \<exists>v s. map_of ps c = Some v \<and> bind_param v = Inr s) \<Longrightarrow>
     \<exists>vals. bind_params cs ps = Inr vals"
proof (induction cs)
  case Nil
  then show ?case by simp
next
  case (Cons a cs)
  then obtain vals where "bind_params cs ps = Inr vals" by force
  moreover from Cons.prems[of a] obtain v s where "map_of ps a = Some v" "bind_param v = Inr s"
    by auto
  ultimately show ?case by simp
qed

lemma bind_params_same_columns:
  assumes "bind_params cs ps = Inr vals" "set cs' = set cs"
  shows "bind_params cs' ps = Inr vals"
proof -
  have "\<And>c. c \<in> set cs' \<Longrightarrow> \<exists>v s. map_of ps c = Some v \<and> bind_param v = Inr s"
    using bind_params_lookup[OF assms(1)] assms(2) by blast
  then obtain vals' where v': "bind_params cs' ps = Inr vals'"
    using bind_params_total by blast
  have "vals' c = vals c" for c
  proof (cases "c \<in> set cs")
    case True
    with bind_params_lookup[OF assms(1), of c] bind_params_lookup[OF v', of c] assms(2)
    show ?thesis by auto
  next
    case False
    with bind_params_other[OF assms(1), of c] bind_params_other[OF v', of c] assms(2)
    show ?thesis by auto
  qed
  then have "vals' = vals" by (rule ext)
  with v' show ?thesis by simp
qed

lemma matches_game_id: "matches [''game_id''] vals r = sql_eq (r ''game_id'') (vals ''game_id'')"
  by (simp add: matches_def)

lemma insert_game_query_stores:
  assumes "execute_query insert_game_query ps db = (None, db')"
  shows "\<exists>vals. bind_params game_columns ps = Inr vals \<and> vals ''game_id'' \<noteq> SNull
      \<and> (\<exists>r\<in>set (db' ''games''). r ''game_id'' = vals ''game_id'')
      \<and> (\<forall>r\<in>set (db' ''games''). r ''game_id'' = vals ''game_id'' \<longrightarrow>
            (\<forall>c\<in>set game_update_columns. r c = vals c))
      \<and> (\<forall>t. t \<noteq> ''games'' \<longrightarrow> db' t = db t)"
  using assms unfolding insert_game_query_def
proof (cases rule: upsert_cases)
  case (1 vals)
  have cols: "bind_params game_columns ps = Inr vals"
    by (rule bind_params_same_columns[OF 1(1)]) (auto simp: game_columns_def game_update_columns_def)
  from 1(2) obtain r0 where r0: "r0 \<in> set (db ''games'')" "sql_eq (r0 ''game_id'') (vals ''game_id'')"
    by (auto simp: list_ex_iff matches_game_id)
  then have nn: "vals ''game_id'' \<noteq> SNull" by (simp add: sql_eq_def)
  define f where "f = (\<lambda>r. if matches [''game_id''] vals r
      then (\<lambda>c. if c \<in> set game_update_columns then vals c else r c) else r)"
  have db': "db' = db(''games'' := map f (db ''games''))"
    using 1(3) unfolding f_def .
  have keep: "f r ''game_id'' = r ''game_id''" for r
    by (simp add: f_def game_update_columns_def)
  have ex: "\<exists>r\<in>set (db' ''games''). r ''game_id'' = vals ''game_id''"
  proof -
    have "f r0 \<in> set (db' ''games'')" using r0(1) by (simp add: db')
    moreover have "f r0 ''game_id'' = vals ''game_id''"
      using r0(2) keep[of r0] by (simp add: sql_eq_def)
    ultimately show ?thesis by blast
  qed
  have all: "\<forall>r\<in>set (db' ''games''). r ''game_id'' = vals ''game_id'' \<longrightarrow>
            (\<forall>c\<in>set game_update_columns. r c = vals c)"
  proof (intro ballI impI)
    fix r c
    assume r: "r \<in> set (db' ''games'')" "r ''game_id'' = vals ''game_id''"
      and c: "c \<in> set game_update_columns"
    from r(1) obtain r1 where r1: "r1 \<in> set (db ''games'')" "r = f r1" by (auto simp: db')
    with r(2) keep[of r1] nn have "matches [''game_id''] vals r1"
      by (simp add: matches_game_id sql_eq_def)
    with r1(2) c show "r c = vals c" by (simp add: f_def)
  qed
  have frame: "\<forall>t. t \<noteq> ''games'' \<longrightarrow> db' t = db t" by (simp add: db')
  show ?thesis
    using cols nn ex all frame by blast
next
  case (2 vals)
  have cols: "bind_params game_columns ps = Inr vals"
    by (rule bind_params_same_columns[OF 2(1)]) (auto simp: game_columns_def game_update_columns_def)
  have sub: "set game_update_columns \<subseteq> set game_columns" "''game_id'' \<in> set game_columns"
    by (auto simp: game_columns_def game_update_columns_def)
  define r0 where "r0 = (\<lambda>c. if c \<in> set game_columns then vals c else SNull)"
  have r0_id: "r0 ''game_id'' = vals ''game_id''" using sub(2) by (simp add: r0_def)
  from 2(4) have nn: "vals ''game_id'' \<noteq> SNull"
    and fresh: "\<forall>r\<in>set (db ''games''). r ''game_id'' \<noteq> vals ''game_id''"
    unfolding r0_def[symmetric] by (auto simp: pk_ok_def primary_key_def list_all_iff r0_id)
  have db': "db' = db(''games'' := db ''games'' @ [r0])" using 2(3) unfolding r0_def .
  have ex: "\<exists>r\<in>set (db' ''games''). r ''game_id'' = vals ''game_id''"
    using r0_id by (simp add: db')
  have all: "\<forall>r\<in>set (db' ''games''). r ''game_id'' = vals ''game_id'' \<longrightarrow>
            (\<forall>c\<in>set game_update_columns. r c = vals c)"
  proof (intro ballI impI)
    fix r c
    assume r: "r \<in> set (db' ''games'')" "r ''game_id'' = vals ''game_id''"
      and c: "c \<in> set game_update_columns"
    from r fresh have "r = r0" by (auto simp: db')
    with c sub(1) show "r c = vals c" by (auto simp: r0_def)
  qed
  have frame: "\<forall>t. t \<noteq> ''games'' \<longrightarrow> db' t = db t" by (simp add: db')
  show ?thesis
    using cols nn ex all frame by blast
qed

section \<open>Sequencing\<close>

lemma bindE_Inr: "bindE x f = Inr y \<longleftrightarrow> (\<exists>v. x = Inr v \<and> f v = Inr y)"
  by (cases x) (simp_all add: bindE_def)

lemma with_value_None:
  "with_value x db f = (None, db') \<longleftrightarrow> (\<exists>v. x = Inr v \<and> f v = (None, db'))"
  by (cases x) (simp_all add: with_value_def)

lemma and_then_None:
  "and_then r f = (None, db') \<longleftrightarrow> (\<exists>db1. r = (None, db1) \<and> f db1 = (None, db'))"
  by (cases r; cases "fst r") (auto simp: and_then_def)

section \<open>Writers\<close>

lemma game_params_fields:
  assumes "game_params ev game_id game_data home_team away_team game_date game_metadata = Inr ps"
  obtains inning m_type d_type m_series d_series m_official d_official home_team_id away_team_id pdate
  where "get0 game_data ''currentInning'' = Inr inning"
    "get0 (if game_metadata = JNull then JObj [] else game_metadata) ''game_type'' = Inr m_type"
    "get0 game_data ''gameType'' = Inr d_type"
    "get0 (if game_metadata = JNull then JObj [] else game_metadata) ''series_description'' = Inr m_series"
    "get0 game_data ''seriesDescription'' = Inr d_series"
    "get0 (if game_metadata = JNull then JObj [] else game_metadata) ''official_date'' = Inr m_official"
    "get0 game_data ''officialDate'' = Inr d_official"
    "get0 home_team ''id'' = Inr home_team_id"
    "get0 away_team ''id'' = Inr away_team_id"
    "parsed_date ev game_data game_date = Inr pdate"
    "map_of ps ''game_id'' = Some (PJson game_id)"
    "map_of ps ''game_date'' = Some pdate"
    "map_of ps ''home_team_id'' = Some (PJson home_team_id)"
    "map_of ps ''away_team_id'' = Some (PJson away_team_id)"
    "map_of ps ''game_status'' = Some (PJson (game_status_of inning))"
    "map_of ps ''game_type'' = Some (PJson (py_or m_type d_type))"
    "map_of ps ''series_description'' = Some (PJson (py_or m_series d_series))"
    "map_of ps ''official_date'' = Some (PJson (py_or m_official d_official))"
proof -
  from assms show ?thesis
    unfolding game_params_def Let_def bindE_Inr
    by (elim exE conjE) (rule that, auto)
qed

lemma writer_frame:
  assumes "with_value x db (\<lambda>ps. execute_query q ps db) = (r, db')" "t \<noteq> table_of q"
  shows "db' t = db t"
proof (cases x)
  case (Inl e)
  with assms(1) show ?thesis by (simp add: with_value_def)
next
  case (Inr ps)
  with assms(1) have "execute_query q ps db = (r, db')" by (simp add: with_value_def)
  from execute_query_frame[OF this assms(2)] show ?thesis .
qed

lemma insert_team_frame:
  "insert_team team_data db = (r, db') \<Longrightarrow> t \<noteq> ''teams'' \<Longrightarrow> db' t = db t"
  unfolding insert_team_def by (erule writer_frame) (simp add: insert_team_query_def)

lemma insert_player_frame:
  "insert_player player_data team_id db = (r, db') \<Longrightarrow> t \<noteq> ''players'' \<Longrightarrow> db' t = db t"
  unfolding insert_player_def by (erule writer_frame) (simp add: insert_player_query_def)

lemma insert_boxscore_stats_frame:
  "insert_boxscore_stats game_id player_id team_id batting db = (r, db') \<Longrightarrow>
     t \<noteq> ''boxscore'' \<Longrightarrow> db' t = db t"
  unfolding insert_boxscore_stats_def
  by (erule writer_frame) (simp add: insert_boxscore_stats_query_def)

lemma insert_game_frame:
  "insert_game ev game_id game_data home_team away_team game_date game_metadata db = (r, db') \<Longrightarrow>
     t \<noteq> ''games'' \<Longrightarrow> db' t = db t"
  unfolding insert_game_def by (erule writer_frame) (simp add: insert_game_query_def)

lemma save_raw_json_frame:
  "save_raw_json ev game_id data_type data db = (r, db') \<Longrightarrow>
     t \<noteq> ''raw_json_data'' \<Longrightarrow> db' t = db t"
  unfolding save_raw_json_def
  by (erule execute_query_frame) (simp add: save_raw_json_query_def)

lemma optional_insert_team_frame:
  "(if c then insert_team team_data db else (None, db)) = (r, db') \<Longrightarrow> t \<noteq> ''teams'' \<Longrightarrow>
     db' t = db t"
  by (auto split: if_splits dest: insert_team_frame)

text \<open>What a successful \<^verbatim>\<open>_insert_game\<close> leaves in \<^verbatim>\<open>games\<close>.\<close>

lemma insert_game_stores:
  assumes "insert_game ev game_id game_data home_team away_team game_date game_metadata db = (None, db')"
  obtains ps vals where
    "game_params ev game_id game_data home_team away_team game_date game_metadata = Inr ps"
    "bind_params game_columns ps = Inr vals"
    "vals ''game_id'' \<noteq> SNull"
    "\<exists>r\<in>set (db' ''games''). r ''game_id'' = vals ''game_id''"
    "\<forall>r\<in>set (db' ''games''). r ''game_id'' = vals ''game_id'' \<longrightarrow>
        (\<forall>c\<in>set game_update_columns. r c = vals c)"
proof -
  from assms obtain ps where
    ps: "game_params ev game_id game_data home_team away_team game_date game_metadata = Inr ps"
    and ex: "execute_query insert_game_query ps db = (None, db')"
    by (auto simp: insert_game_def with_value_None)
  from insert_game_query_stores[OF ex] ps that show ?thesis by blast
qed

lemma process_game_data_insert_game:
  assumes "process_game_data ev game_id game_data game_date game_metadata db = (None, db')"
  obtains home_team away_team db1 where
    "insert_game ev game_id game_data home_team away_team game_date game_metadata db1 = (None, db')"
    "\<forall>t. t \<noteq> ''teams'' \<longrightarrow> db1 t = db t"
proof -
  from assms obtain teams_data home_team away_team dba dbb where
    a: "(if py_truthy home_team then insert_team home_team db else (None, db)) = (None, dba)"
    and b: "(if py_truthy away_team then insert_team away_team dba else (None, dba)) = (None, dbb)"
    and g: "insert_game ev game_id game_data home_team away_team game_date game_metadata dbb = (None, db')"
    unfolding process_game_data_def with_value_None and_then_None by blast
  have "\<forall>t. t \<noteq> ''teams'' \<longrightarrow> dbb t = db t"
    using optional_insert_team_frame[OF a] optional_insert_team_frame[OF b] by simp
  with g that show ?thesis by blast
qed

section \<open>Game status\<close>

text \<open>
  Claim C9, as the code has it: whenever \<^verbatim>\<open>_process_game_data\<close> completes, the row of the
  game exists and its status is derived from the payload's current inning alone: "Live"
  when that value is true in Python's sense (present, not null, not zero, not empty) and
  "Final" otherwise.
\<close>

theorem game_status_from_current_inning:
  assumes "process_game_data ev game_id game_data game_date game_metadata db = (None, db')"
  shows "\<exists>inning gid. get0 game_data ''currentInning'' = Inr inning
     \<and> bind_param (PJson game_id) = Inr gid
     \<and> (\<exists>r\<in>set (db' ''games''). r ''game_id'' = gid)
     \<and> (\<forall>r\<in>set (db' ''games''). r ''game_id'' = gid \<longrightarrow>
          r ''game_status'' = SStr (if py_truthy inning then ''Live'' else ''Final''))"
proof -
  from assms obtain home_team away_team db1 where
    g: "insert_game ev game_id game_data home_team away_team game_date game_metadata db1 = (None, db')"
    by (rule process_game_data_insert_game)
  from g obtain ps vals where
    ps: "game_params ev game_id game_data home_team away_team game_date game_metadata = Inr ps"
    and vals: "bind_params game_columns ps = Inr vals"
    and ex: "\<exists>r\<in>set (db' ''games''). r ''game_id'' = vals ''game_id''"
    and all: "\<forall>r\<in>set (db' ''games''). r ''game_id'' = vals ''game_id'' \<longrightarrow>
        (\<forall>c\<in>set game_update_columns. r c = vals c)"
    by (rule insert_game_stores)
  from ps obtain inning where
    inning: "get0 game_data ''currentInning'' = Inr inning"
    and p_id: "map_of ps ''game_id'' = Some (PJson game_id)"
    and p_st: "map_of ps ''game_status'' = Some (PJson (game_status_of inning))"
    by (rule game_params_fields)
  have gid: "bind_param (PJson game_id) = Inr (vals ''game_id'')"
    using bind_params_lookup[OF vals, of "''game_id''"] p_id by (simp add: game_columns_def)
  have st: "vals ''game_status'' = SStr (if py_truthy inning then ''Live'' else ''Final'')"
    using bind_params_lookup[OF vals, of "''game_status''"] p_st
    by (simp add: game_columns_def game_status_of_def split: if_splits)
  have "''game_status'' \<in> set game_update_columns" by (simp add: game_update_columns_def)
  with all st have "\<forall>r\<in>set (db' ''games''). r ''game_id'' = vals ''game_id'' \<longrightarrow>
          r ''game_status'' = SStr (if py_truthy inning then ''Live'' else ''Final'')"
    by metis
  with inning gid ex show ?thesis by blast
qed

theorem game_status_from_current_inning_witness:
  "fst (process_game_data sample_env (JInt 700001) (game_data_with_inning (JInt 5))
          (JStr ''2024-04-10'') JNull empty_db) = None
   \<and> (\<exists>r\<in>set (snd (process_game_data sample_env (JInt 700001) (game_data_with_inning (JInt 5))
          (JStr ''2024-04-10'') JNull empty_db) ''games'').
         r ''game_id'' = SInt 700001 \<and> r ''game_status'' = SStr ''Live'')"
proof -
  let ?r = "process_game_data sample_env (JInt 700001) (game_data_with_inning (JInt 5))
          (JStr ''2024-04-10'') JNull empty_db"
  have ok: "fst ?r = None" by code_simp
  then have run: "?r = (None, snd ?r)" by (simp add: prod_eq_iff)
  have inn: "get0 (game_data_with_inning (JInt 5)) ''currentInning'' = Inr (JInt 5)"
    by (simp add: game_data_with_inning_def get0_def)
  from game_status_from_current_inning[OF run] inn
  have "\<exists>r\<in>set (snd ?r ''games''). r ''game_id'' = SInt 700001 \<and> r ''game_status'' = SStr ''Live''"
    by auto
  with ok show ?thesis by simp
qed

text \<open>A current inning of 0 is not null, and the stored status is "Final".\<close>

theorem game_status_nonnull_inning_counterexample:
  "get0 (game_data_with_inning (JInt 0)) ''currentInning'' = Inr (JInt 0) \<and> JInt 0 \<noteq> JNull
   \<and> fst (process_game_data sample_env (JInt 700001) (game_data_with_inning (JInt 0))
          (JStr ''2024-04-10'') JNull empty_db) = None
   \<and> map (\<lambda>r. (r ''game_id'', r ''game_status''))
        (snd (process_game_data sample_env (JInt 700001) (game_data_with_inning (JInt 0))
          (JStr ''2024-04-10'') JNull empty_db) ''games'') = [(SInt 700001, SStr ''Final'')]"
  by code_simp

section \<open>Tables a step leaves alone\<close>

lemma framesD: "frames t f \<Longrightarrow> f db = (r, db') \<Longrightarrow> db' t = db t"
  by (auto simp: frames_def)

lemma frames_skip: "frames t (\<lambda>db. (None, db))"
  by (simp add: frames_def)

lemma frames_if: "frames t f \<Longrightarrow> frames t g \<Longrightarrow> frames t (\<lambda>db. if c then f db else g db)"
  by (simp add: frames_def)

lemma frames_with_value:
  "(\<And>v. frames t (f v)) \<Longrightarrow> frames t (\<lambda>db. with_value x db (\<lambda>v. f v db))"
  by (cases x) (auto simp: frames_def with_value_def)

lemma frames_and_then:
  assumes "frames t a" "frames t b"
  shows "frames t (\<lambda>db. and_then (a db) b)"
  unfolding frames_def
proof (intro allI impI)
  fix db r db'
  assume *: "and_then (a db) b = (r, db')"
  obtain x d where a: "a db = (x, d)" by (cases "a db")
  with assms(1) have d: "d t = db t" by (auto simp: frames_def)
  show "db' t = db t"
  proof (cases x)
    case None
    with * a have "b d = (r, db')" by (simp add: and_then_def)
    with assms(2) have "db' t = d t" by (rule framesD)
    with d show ?thesis by simp
  next
    case (Some e)
    with * a d show ?thesis by (simp add: and_then_def)
  qed
qed

lemma frames_execute_query: "t \<noteq> table_of q \<Longrightarrow> frames t (execute_query q ps)"
  by (auto simp: frames_def dest: execute_query_frame)

lemma frames_insert_team: "t \<noteq> ''teams'' \<Longrightarrow> frames t (insert_team team_data)"
  unfolding insert_team_def[abs_def]
  by (intro frames_with_value frames_execute_query) (simp add: insert_team_query_def)

lemma frames_insert_player:
  "t \<noteq> ''players'' \<Longrightarrow> frames t (insert_player player_data team_id)"
  unfolding insert_player_def[abs_def]
  by (intro frames_with_value frames_execute_query) (simp add: insert_player_query_def)

lemma frames_insert_boxscore_stats:
  "t \<noteq> ''boxscore'' \<Longrightarrow> frames t (insert_boxscore_stats game_id player_id team_id batting)"
  unfolding insert_boxscore_stats_def[abs_def]
  by (intro frames_with_value frames_execute_query) (simp add: insert_boxscore_stats_query_def)

lemma frames_insert_game:
  "t \<noteq> ''games'' \<Longrightarrow>
     frames t (insert_game ev game_id game_data home_team away_team game_date game_metadata)"
  unfolding insert_game_def[abs_def]
  by (intro frames_with_value frames_execute_query) (simp add: insert_game_query_def)

lemma frames_save_raw_json:
  "t \<noteq> ''raw_json_data'' \<Longrightarrow> frames t (save_raw_json ev game_id data_type data)"
  unfolding save_raw_json_def[abs_def]
  by (intro frames_execute_query) (simp add: save_raw_json_query_def)

lemma frames_process_player:
  "t \<noteq> ''players'' \<Longrightarrow> t \<noteq> ''boxscore'' \<Longrightarrow>
     frames t (process_player game_id team_info player_data)"
  unfolding process_player_def[abs_def]
  by (intro frames_with_value frames_and_then frames_if frames_skip frames_insert_player
      frames_insert_boxscore_stats)

lemma frames_process_players:
  assumes "t \<noteq> ''players''" "t \<noteq> ''boxscore''"
  shows "frames t (process_players game_id team_info items)"
proof (induction items)
  case Nil
  show ?case by (simp add: frames_def)
next
  case (Cons kv items)
  obtain player_key player_data where kv: "kv = (player_key, player_data)" by (cases kv)
  have "frames t (\<lambda>db. if startswith player_key ''ID'' then
        and_then (process_player game_id team_info player_data db)
          (process_players game_id team_info items)
      else process_players game_id team_info items db)"
    by (intro frames_if frames_and_then frames_process_player assms Cons.IH)
  then show ?case by (simp add: frames_def kv)
qed

lemma frames_process_team:
  "t \<noteq> ''teams'' \<Longrightarrow> t \<noteq> ''players'' \<Longrightarrow> t \<noteq> ''boxscore'' \<Longrightarrow>
     frames t (process_team game_id teams team_type)"
  unfolding process_team_def[abs_def]
  by (intro frames_with_value frames_and_then frames_if frames_skip frames_insert_team
      frames_process_players)

lemma frames_process_boxscore_data:
  "t \<noteq> ''teams'' \<Longrightarrow> t \<noteq> ''players'' \<Longrightarrow> t \<noteq> ''boxscore'' \<Longrightarrow>
     frames t (process_boxscore_data game_id boxscore_data)"
  unfolding process_boxscore_data_def[abs_def]
  by (intro frames_with_value frames_and_then frames_process_team)

lemma frames_process_game_data:
  "t \<noteq> ''teams'' \<Longrightarrow> t \<noteq> ''games'' \<Longrightarrow>
     frames t (process_game_data ev game_id game_data game_date game_metadata)"
  unfolding process_game_data_def[abs_def]
  by (intro frames_with_value frames_and_then frames_if frames_skip frames_insert_team
      frames_insert_game)

text \<open>The parts of a combined load that returned True.\<close>

lemma load_combined_data_True:
  assumes "load_combined_data ev data store = (Inr True, db')"
  obtains game_id game_date game_metadata where
    "get0 data ''game_id'' = Inr game_id"
    "get0 data ''game_date'' = Inr game_date"
    "combined_metadata data = Inr game_metadata"
    "combined_transaction ev data game_id game_date game_metadata store = (None, db')"
  using assms unfolding load_combined_data_def
  by (auto simp: bindE_Inr split: sum.splits prod.splits option.splits)

lemma combined_transaction_game:
  assumes "combined_transaction ev data game_id game_date game_metadata db = (None, db')"
    and "py_in ''game_data'' data = Inr True"
  obtains game_data db1 db2 where
    "py_index data ''game_data'' = Inr game_data"
    "save_raw_json ev game_id ''combined'' data db = (None, db1)"
    "process_game_data ev game_id game_data game_date game_metadata db1 = (None, db2)"
    "db' ''games'' = db2 ''games''"
proof -
  from assms(1) obtain db1 db2 where
    raw: "save_raw_json ev game_id ''combined'' data db = (None, db1)"
    and g0: "with_value (py_in ''game_data'' data) db1 (\<lambda>present.
          if present then
            with_value (py_index data ''game_data'') db1 (\<lambda>game_data.
              process_game_data ev game_id game_data game_date game_metadata db1)
          else (None, db1)) = (None, db2)"
    and b: "with_value (py_in ''boxscore'' data) db2 (\<lambda>present.
         if present then
           with_value (py_index data ''boxscore'') db2 (\<lambda>boxscore.
             process_boxscore_data game_id boxscore db2)
         else (None, db2)) = (None, db')"
    unfolding combined_transaction_def and_then_None by blast
  from g0 assms(2) obtain game_data where
    idx: "py_index data ''game_data'' = Inr game_data"
    and g: "process_game_data ev game_id game_data game_date game_metadata db1 = (None, db2)"
    by (auto simp: with_value_None)
  have "frames ''games'' (\<lambda>db. with_value (py_in ''boxscore'' data) db (\<lambda>present.
         if present then
           with_value (py_index data ''boxscore'') db (\<lambda>boxscore.
             process_boxscore_data game_id boxscore db)
         else (None, db)))"
    by (intro frames_with_value frames_if frames_skip frames_process_boxscore_data) simp_all
  from framesD[OF this b] have "db' ''games'' = db2 ''games''" .
  with raw idx g that show ?thesis by blast
qed

lemma combined_metadata_get:
  assumes "combined_metadata data = Inr game_metadata"
    and "k \<in> {''game_type'', ''series_description'', ''official_date''}"
  shows "game_metadata \<noteq> JNull \<and> get0 game_metadata k = get0 data k"
  using assms unfolding combined_metadata_def bindE_Inr
  by (auto simp: get0_def)

section \<open>Metadata precedence\<close>

text \<open>
  Claim C8, as the code has it: when a combined payload with a \<^verbatim>\<open>game_data\<close> body is
  loaded, then for each of \<^verbatim>\<open>game_type\<close>, \<^verbatim>\<open>series_description\<close>, \<^verbatim>\<open>official_date\<close> the
  stored row of the game holds the top-level value when that value is true in Python's
  sense (not null, not empty), whatever the body says under the embedded name, and holds
  the value the body has under the embedded name otherwise.
\<close>

theorem top_level_metadata_wins:
  assumes "load_combined_data ev data store = (Inr True, db')"
    and "py_in ''game_data'' data = Inr True"
    and "(k, k') \<in> {(''game_type'', ''gameType''), (''series_description'', ''seriesDescription''),
                    (''official_date'', ''officialDate'')}"
    and "get0 data k = Inr v"
  shows "\<exists>game_id gid game_data d. get0 data ''game_id'' = Inr game_id
     \<and> bind_param (PJson game_id) = Inr gid
     \<and> py_index data ''game_data'' = Inr game_data \<and> get0 game_data k' = Inr d
     \<and> (\<exists>r\<in>set (db' ''games''). r ''game_id'' = gid)
     \<and> (\<forall>r\<in>set (db' ''games''). r ''game_id'' = gid \<longrightarrow>
          bind_param (PJson (if py_truthy v then v else d)) = Inr (r k))"
proof -
  from assms(1) obtain game_id game_date game_metadata where
    gid: "get0 data ''game_id'' = Inr game_id"
    and meta: "combined_metadata data = Inr game_metadata"
    and tx: "combined_transaction ev data game_id game_date game_metadata store = (None, db')"
    by (rule load_combined_data_True)
  from tx assms(2) obtain game_data db1 db2 where
    idx: "py_index data ''game_data'' = Inr game_data"
    and pg: "process_game_data ev game_id game_data game_date game_metadata db1 = (None, db2)"
    and same: "db' ''games'' = db2 ''games''"
    by (rule combined_transaction_game)
  from pg obtain home_team away_team db3 where
    g: "insert_game ev game_id game_data home_team away_team game_date game_metadata db3 = (None, db2)"
    by (rule process_game_data_insert_game)
  from g obtain ps vals where
    ps: "game_params ev game_id game_data home_team away_team game_date game_metadata = Inr ps"
    and vals: "bind_params game_columns ps = Inr vals"
    and ex: "\<exists>r\<in>set (db2 ''games''). r ''game_id'' = vals ''game_id''"
    and all: "\<forall>r\<in>set (db2 ''games''). r ''game_id'' = vals ''game_id'' \<longrightarrow>
        (\<forall>c\<in>set game_update_columns. r c = vals c)"
    by (rule insert_game_stores)
  have k: "k \<in> {''game_type'', ''series_description'', ''official_date''}"
    using assms(3) by auto
  from combined_metadata_get[OF meta k] assms(4)
  have m: "game_metadata \<noteq> JNull" "get0 game_metadata k = Inr v" by simp_all
  from ps obtain m_type d_type m_series d_series m_official d_official where
    f: "get0 (if game_metadata = JNull then JObj [] else game_metadata) ''game_type'' = Inr m_type"
       "get0 (if game_metadata = JNull then JObj [] else game_metadata) ''series_description'' = Inr m_series"
       "get0 (if game_metadata = JNull then JObj [] else game_metadata) ''official_date'' = Inr m_official"
    and e: "get0 game_data ''gameType'' = Inr d_type"
       "get0 game_data ''seriesDescription'' = Inr d_series"
       "get0 game_data ''officialDate'' = Inr d_official"
    and p_id: "map_of ps ''game_id'' = Some (PJson game_id)"
    and p: "map_of ps ''game_type'' = Some (PJson (py_or m_type d_type))"
       "map_of ps ''series_description'' = Some (PJson (py_or m_series d_series))"
       "map_of ps ''official_date'' = Some (PJson (py_or m_official d_official))"
    by (rule game_params_fields)
  have "\<exists>d. get0 game_data k' = Inr d \<and> map_of ps k = Some (PJson (py_or v d))"
    using assms(3) f e p m by auto
  then obtain d where d: "get0 game_data k' = Inr d"
    and p_k: "map_of ps k = Some (PJson (py_or v d))" by blast
  have b_id: "bind_param (PJson game_id) = Inr (vals ''game_id'')"
    using bind_params_lookup[OF vals, of "''game_id''"] p_id by (simp add: game_columns_def)
  have kc: "k \<in> set game_columns" "k \<in> set game_update_columns"
    using k by (auto simp: game_columns_def game_update_columns_def)
  have b_k: "bind_param (PJson (if py_truthy v then v else d)) = Inr (vals k)"
    using bind_params_lookup[OF vals kc(1)] p_k by (simp add: py_or_def)
  from all kc(2) b_k have a: "\<forall>r\<in>set (db2 ''games''). r ''game_id'' = vals ''game_id'' \<longrightarrow>
      bind_param (PJson (if py_truthy v then v else d)) = Inr (r k)" by metis
  show ?thesis
    apply (rule exI[of _ game_id], rule exI[of _ "vals ''game_id''"])
    apply (rule exI[of _ game_data], rule exI[of _ d])
    using gid b_id idx d ex a unfolding same by simp
qed

theorem top_level_metadata_wins_witness:
  "fst (load_combined_data sample_env (sample_combined (JStr ''R'') (JStr ''S'')) empty_db) = Inr True
   \<and> (\<exists>r\<in>set (snd (load_combined_data sample_env (sample_combined (JStr ''R'') (JStr ''S''))
          empty_db) ''games'').
         r ''game_id'' = SInt 700001 \<and> r ''game_type'' = SStr ''R'')
   \<and> fst (load_combined_data sample_env (sample_combined JNull (JStr ''S'')) empty_db) = Inr True
   \<and> (\<exists>r\<in>set (snd (load_combined_data sample_env (sample_combined JNull (JStr ''S''))
          empty_db) ''games'').
         r ''game_id'' = SInt 700001 \<and> r ''game_type'' = SStr ''S'')"
proof -
  have k: "(''game_type'', ''gameType'') \<in> {(''game_type'', ''gameType''),
      (''series_description'', ''seriesDescription''), (''official_date'', ''officialDate'')}"
    by simp
  have stored: "\<exists>r\<in>set (snd (load_combined_data sample_env (sample_combined top (JStr ''S''))
        empty_db) ''games'').
      r ''game_id'' = SInt 700001
      \<and> bind_param (PJson (if py_truthy top then top else JStr ''S'')) = Inr (r ''game_type'')"
    if ok: "fst (load_combined_data sample_env (sample_combined top (JStr ''S'')) empty_db)
      = Inr True" for top
  proof -
    let ?data = "sample_combined top (JStr ''S'')"
    let ?r = "load_combined_data sample_env ?data empty_db"
    from ok have run: "?r = (Inr True, snd ?r)" by (simp add: prod_eq_iff)
    have h: "py_in ''game_data'' ?data = Inr True" "get0 ?data ''game_type'' = Inr top"
      "get0 ?data ''game_id'' = Inr (JInt 700001)"
      "py_index ?data ''game_data'' = Inr (game_data_with_type (JStr ''S''))"
      "get0 (game_data_with_type (JStr ''S'')) ''gameType'' = Inr (JStr ''S'')"
      by (simp_all add: sample_combined_def game_data_with_type_def get0_def)
    from top_level_metadata_wins[OF run h(1) k h(2)] h(3,4,5)
    show ?thesis by auto
  qed
  have ok: "fst (load_combined_data sample_env (sample_combined (JStr ''R'') (JStr ''S'')) empty_db)
      = Inr True"
    "fst (load_combined_data sample_env (sample_combined JNull (JStr ''S'')) empty_db) = Inr True"
    by code_simp+
  from stored[OF ok(1)] stored[OF ok(2)] ok show ?thesis by auto
qed

text \<open>A top-level \<^verbatim>\<open>game_type\<close> that is the empty string conflicts with the embedded "S",
  and "S" is stored.\<close>

theorem empty_top_level_metadata_counterexample:
  "get0 (sample_combined (JStr []) (JStr ''S'')) ''game_type'' = Inr (JStr [])
   \<and> get_in (sample_combined (JStr []) (JStr ''S'')) ''game_data'' ''gameType'' JNull = Inr (JStr ''S'')
   \<and> fst (load_combined_data sample_env (sample_combined (JStr []) (JStr ''S'')) empty_db) = Inr True
   \<and> map (\<lambda>r. (r ''game_id'', r ''game_type''))
        (snd (load_combined_data sample_env (sample_combined (JStr []) (JStr ''S'')) empty_db)
           ''games'') = [(SInt 700001, SStr ''S'')]"
  by code_simp

section \<open>Schedule loads\<close>

lemma schedule_games_completes:
  "list_all is_dict games \<Longrightarrow> fst (schedule_games ev game_date games db) = None"
proof (induction games arbitrary: db)
  case Nil
  then show ?case by simp
next
  case (Cons game rest)
  then obtain kvs where game: "game = JObj kvs" by (auto simp: is_dict_def split: json.splits)
  from Cons have rest: "\<And>db. fst (schedule_games ev game_date rest db) = None" by simp
  obtain x d where r: "schedule_game ev game_date game db = (x, d)"
    by (cases "schedule_game ev game_date game db")
  show ?case
    using r rest by (cases x) (simp_all add: game get0_def with_value_def)
qed

lemma schedule_dates_completes:
  "list_all date_shaped dates \<Longrightarrow> fst (schedule_dates ev dates db) = None"
proof (induction dates arbitrary: db)
  case Nil
  then show ?case by simp
next
  case (Cons date_entry rest)
  from Cons.prems obtain kvs where d: "date_entry = JObj kvs" "date_shaped (JObj kvs)"
    by (auto simp: date_shaped_def split: json.splits)
  from Cons have rest: "\<And>db. fst (schedule_dates ev rest db) = None" by simp
  from d(2) obtain games where
    g: "py_get date_entry ''games'' (JArr []) = Inr (JArr games)" "list_all is_dict games"
    by (auto simp: date_shaped_def d(1) split: option.splits json.splits)
  show ?case
  proof -
    let ?gd = "case map_of kvs ''date'' of None \<Rightarrow> JNull | Some v \<Rightarrow> v"
    obtain x db1 where s: "schedule_games ev ?gd games db = (x, db1)"
      by (cases "schedule_games ev ?gd games db")
    with schedule_games_completes[OF g(2), of ev ?gd db] have x: "x = None" by simp
    have "schedule_dates ev (date_entry # rest) db = schedule_dates ev rest db1"
      using g(1) s x by (simp add: d(1) get0_def with_value_def and_then_def)
    with rest show ?thesis by simp
  qed
qed

text \<open>The loop over the games of a date never raises, and runs every game.\<close>

lemma schedule_games_run:
  "list_all is_dict games \<Longrightarrow>
     schedule_games ev game_date games db = (None, run_games ev game_date games db)"
proof (induction games arbitrary: db)
  case Nil
  then show ?case by (simp add: run_games_def)
next
  case (Cons game rest)
  then obtain kvs where game: "game = JObj kvs" by (auto simp: is_dict_def split: json.splits)
  obtain x d where r: "schedule_game ev game_date game db = (x, d)"
    by (cases "schedule_game ev game_date game db")
  from Cons have "schedule_games ev game_date rest d = (None, run_games ev game_date rest d)"
    by simp
  then show ?case
    using r by (cases x) (simp_all add: game get0_def with_value_def run_games_def)
qed

lemma schedule_dates_run:
  "list_all date_shaped dates \<Longrightarrow>
     schedule_dates ev dates db
       = (None, foldl (\<lambda>db date_entry.
                  run_games ev (date_of date_entry) (games_of date_entry) db) db dates)"
proof (induction dates arbitrary: db)
  case Nil
  then show ?case by simp
next
  case (Cons date_entry rest)
  from Cons.prems obtain kvs where d: "date_entry = JObj kvs" "date_shaped (JObj kvs)"
    by (auto simp: date_shaped_def split: json.splits)
  from d(2) obtain games where
    g: "py_get date_entry ''games'' (JArr []) = Inr (JArr games)" "list_all is_dict games"
    by (auto simp: date_shaped_def d(1) split: option.splits json.splits)
  from g(1) have go: "games_of date_entry = games" by (simp add: games_of_def bindE_def)
  obtain gd where gd: "get0 date_entry ''date'' = Inr gd" by (auto simp: d(1) get0_def)
  then have dt: "date_of date_entry = gd" by (simp add: date_of_def)
  let ?db1 = "run_games ev gd games db"
  have "schedule_dates ev (date_entry # rest) db = schedule_dates ev rest ?db1"
    using g(1) gd schedule_games_run[OF g(2), of ev gd db]
    by (simp add: with_value_def and_then_def)
  also from Cons have "\<dots> = (None, foldl (\<lambda>db date_entry.
        run_games ev (date_of date_entry) (games_of date_entry) db) ?db1 rest)"
    by simp
  finally show ?case by (simp add: go dt)
qed

text \<open>
  Claim C10: for every schedule-shaped input whose connection succeeds,
  \<^verbatim>\<open>load_schedule_data\<close> (the later definition, the one in effect) returns True, whatever
  happens to the per-game inserts. Its loop raises nothing and runs to the end: every game
  of every date goes through the \<^verbatim>\<open>try\<close> block, each from the tables the game before it
  left behind, whether that one raised or not; the return value reflects no failure.
\<close>

theorem load_schedule_data_returns_True:
  assumes "connect_ok ev" and "schedule_shaped schedule_data"
  shows "fst (load_schedule_data ev schedule_data store) = Inr True
     \<and> schedule_statements ev schedule_data store
         = (None, run_schedule ev schedule_data store)"
proof -
  from assms(2) obtain kvs where sd: "schedule_data = JObj kvs"
    by (auto simp: schedule_shaped_def split: json.splits)
  from assms(2) obtain dates where
    d: "py_get schedule_data ''dates'' (JArr []) = Inr (JArr dates)" "list_all date_shaped dates"
    by (auto simp: schedule_shaped_def sd split: option.splits json.splits)
  from d(1) have ds: "dates_of schedule_data = dates" by (simp add: dates_of_def bindE_def)
  have run: "schedule_statements ev schedule_data store
      = (None, run_schedule ev schedule_data store)"
    using d(1) schedule_dates_run[OF d(2), of ev store]
    by (simp add: schedule_statements_def with_value_def run_schedule_def ds)
  then have "fst (load_schedule_data ev schedule_data store) = Inr True"
    using assms(1) by (simp add: load_schedule_data_def without_transaction_def)
  with run show ?thesis by simp
qed

theorem load_schedule_data_returns_True_witness:
  "connect_ok sample_env \<and> schedule_shaped schedule_with_failing_game
   \<and> fst (schedule_game sample_env (JStr ''2024-04-10'') game_without_id empty_db)
       = Some StorageError
   \<and> fst (load_schedule_data sample_env schedule_with_failing_game empty_db) = Inr True
   \<and> fst (schedule_statements sample_env schedule_with_failing_game empty_db) = None
   \<and> map (\<lambda>r. r ''game_id'')
        (snd (schedule_statements sample_env schedule_with_failing_game empty_db) ''games'')
       = [SInt 700002]"
proof -
  have c: "connect_ok sample_env" by (simp add: sample_env_def)
  have s: "schedule_shaped schedule_with_failing_game" by code_simp
  have e: "fst (schedule_game sample_env (JStr ''2024-04-10'') game_without_id empty_db)
       = Some StorageError"
    "map (\<lambda>r. r ''game_id'') (run_schedule sample_env schedule_with_failing_game empty_db ''games'')
       = [SInt 700002]"
    by code_simp+
  from load_schedule_data_returns_True[OF c s, of empty_db] c s e show ?thesis by simp
qed

section \<open>Batting field names\<close>

text \<open>The names \<^verbatim>\<open>_insert_boxscore_stats\<close> reads from a batting line.\<close>

lemma boxscore_params_names:
  assumes "boxscore_params game_id player_id team_id (JObj kvs) = Inr ps"
  shows "map (map_of ps) [''at_bats'', ''runs'', ''hits'', ''doubles'', ''triples'', ''home_runs'',
           ''rbi'', ''walks'', ''strikeouts'']
     = map (\<lambda>k. Some (PJson (case map_of kvs k of Some v \<Rightarrow> v | None \<Rightarrow> JInt 0)))
         [''atBats'', ''runs'', ''hits'', ''doubles'', ''triples'', ''homeRuns'',
          ''rbi'', ''walks'', ''strikeOuts'']"
  using assms unfolding boxscore_params_def bindE_Inr by auto

text \<open>
  Claim C7 at a batting line that names \<^verbatim>\<open>baseOnBalls\<close>, \<^verbatim>\<open>hitByPitch\<close>, \<^verbatim>\<open>sacFlies\<close>
  and \<^verbatim>\<open>sacBunts\<close>: \<^verbatim>\<open>_insert_boxscore_stats\<close> reads the key \<^verbatim>\<open>walks\<close>, which the payload
  does not have, so two walks are stored as 0; it passes no parameter for the other three,
  and the stored row has no value for them. \<^verbatim>\<open>atBats\<close> and \<^verbatim>\<open>strikeOuts\<close> arrive.
\<close>

theorem walks_and_sacrifices_not_loaded:
  "map (map_of (projr (boxscore_params (JInt 700001) (JInt 501) (JInt 10) batting_all)))
     [''at_bats'', ''walks'', ''strikeouts'', ''hit_by_pitch'', ''sacrifice_flies'', ''sacrifice_bunts'']
     = [Some (PJson (JInt 3)), Some (PJson (JInt 0)), Some (PJson (JInt 1)), None, None, None]
   \<and> fst (load_combined_data sample_env (combined_with 10 player_501 batting_all) empty_db) = Inr True
   \<and> map (\<lambda>r. map r [''game_id'', ''player_id'', ''at_bats'', ''walks'', ''strikeouts'',
                       ''hit_by_pitch'', ''sacrifice_flies'', ''sacrifice_bunts''])
        (snd (load_combined_data sample_env (combined_with 10 player_501 batting_all) empty_db)
           ''boxscore'')
     = [[SInt 700001, SInt 501, SInt 3, SInt 0, SInt 1, SNull, SNull, SNull]]"
  by code_simp

section \<open>The boxscore line writer\<close>

text \<open>
  Claim C2 at a line that is already stored: after a load stored 4 at-bats and 1 hit for
  player 501, a call of \<^verbatim>\<open>_insert_boxscore_stats\<close> with 5 at-bats and 2 hits for the same
  (game, player) completes without error and leaves the stored line as it was. The
  statement is a guarded INSERT; there is no UPDATE.
\<close>

theorem existing_line_not_overwritten:
  "map (\<lambda>r. map r [''game_id'', ''player_id'', ''at_bats'', ''hits''])
     (snd (load_combined_data sample_env
        (combined_with 10 player_501 (JObj [(''atBats'', JInt 4), (''hits'', JInt 1)])) empty_db)
        ''boxscore'')
     = [[SInt 700001, SInt 501, SInt 4, SInt 1]]
   \<and> fst (insert_boxscore_stats (JInt 700001) (JInt 501) (JInt 10)
          (JObj [(''atBats'', JInt 5), (''hits'', JInt 2)])
          (snd (load_combined_data sample_env
             (combined_with 10 player_501 (JObj [(''atBats'', JInt 4), (''hits'', JInt 1)]))
             empty_db))) = None
   \<and> map (\<lambda>r. map r [''game_id'', ''player_id'', ''at_bats'', ''hits''])
        (snd (insert_boxscore_stats (JInt 700001) (JInt 501) (JInt 10)
          (JObj [(''atBats'', JInt 5), (''hits'', JInt 2)])
          (snd (load_combined_data sample_env
             (combined_with 10 player_501 (JObj [(''atBats'', JInt 4), (''hits'', JInt 1)]))
             empty_db))) ''boxscore'')
     = [[SInt 700001, SInt 501, SInt 4, SInt 1]]"
  by code_simp

section \<open>Reloading a game\<close>

lemma game_statement_keeps_teams:
  "''home_team_id'' \<notin> set game_update_columns \<and> ''away_team_id'' \<notin> set game_update_columns"
  by (simp add: game_update_columns_def)

lemma scheduled_game_statement_updates_teams:
  "\<exists>upd. insert_scheduled_game_query
       = IfNotExistsInsertElseUpdate ''games'' [''game_id''] game_columns upd
     \<and> ''home_team_id'' \<in> set upd \<and> ''away_team_id'' \<in> set upd"
  by (simp add: insert_scheduled_game_query_def)

text \<open>No run of the game statement changes the team ids of a row that was stored before.\<close>

lemma insert_game_query_keeps_team_ids:
  assumes "execute_query insert_game_query ps db = (None, db')"
  shows "take (length (db ''games'')) (map (\<lambda>r. (r ''home_team_id'', r ''away_team_id'')) (db' ''games''))
     = map (\<lambda>r. (r ''home_team_id'', r ''away_team_id'')) (db ''games'')"
  using assms unfolding insert_game_query_def
proof (cases rule: upsert_cases)
  case (1 vals)
  define f where "f = (\<lambda>r. if matches [''game_id''] vals r
      then (\<lambda>c. if c \<in> set game_update_columns then vals c else r c) else r)"
  have db': "db' ''games'' = map f (db ''games'')" using 1(3) unfolding f_def by simp
  have "(f r ''home_team_id'', f r ''away_team_id'') = (r ''home_team_id'', r ''away_team_id'')" for r
    using game_statement_keeps_teams by (simp add: f_def)
  then show ?thesis by (simp add: db' o_def)
next
  case (2 vals)
  then show ?thesis by simp
qed

text \<open>
  Claim C3 at a reload with another home team: after game 700001 was stored with home
  team 10, loading a payload for the same game with home team 30 succeeds, and the
  stored row still names team 10. The UPDATE branch of \<^verbatim>\<open>_insert_game\<close> does not list
  \<^verbatim>\<open>home_team_id\<close> and \<^verbatim>\<open>away_team_id\<close>.
\<close>

theorem home_team_id_not_rewritten:
  "fst (load_combined_data sample_env (combined_with 30 player_501 batting_all)
          (snd (load_combined_data sample_env (combined_with 10 player_501 batting_all) empty_db)))
     = Inr True
   \<and> map (\<lambda>r. map r [''game_id'', ''home_team_id'', ''away_team_id''])
        (snd (load_combined_data sample_env (combined_with 30 player_501 batting_all)
          (snd (load_combined_data sample_env (combined_with 10 player_501 batting_all) empty_db)))
          ''games'')
     = [[SInt 700001, SInt 10, SInt 20]]"
  by code_simp

section \<open>Units of work\<close>

lemma without_transaction_keeps_store: "snd (without_transaction store r) = store"
  by (cases r) (simp add: without_transaction_def split: option.splits)

text \<open>
  The raw loaders and the schedule loader leave the stored tables as they were, whatever
  the file holds and whatever they return.
\<close>

lemma load_boxscore_data_keeps_store: "snd (load_boxscore_data ev data store) = store"
  by (simp add: load_boxscore_data_def without_transaction_keeps_store)

lemma load_game_data_keeps_store: "snd (load_game_data ev data store) = store"
  by (simp add: load_game_data_def without_transaction_keeps_store)

lemma load_schedule_data_keeps_store: "snd (load_schedule_data ev schedule_data store) = store"
  by (simp add: load_schedule_data_def without_transaction_keeps_store)

text \<open>
  Claim C4 at a boxscore-only file whose every write succeeds. \<^verbatim>\<open>_load_boxscore_data\<close>
  opens no transaction and nothing commits for it: its statements run without error and
  write one raw payload row, two teams, one player and one boxscore line on the
  connection, the load returns True, and the stored tables are still empty. The writes of
  the file are not a unit of work that commits.
\<close>

theorem boxscore_file_writes_not_committed:
  "fst (boxscore_statements
          (file_env ''data/boxscore_raw_776762.json'' (boxscore_with 10 player_501 batting_all))
          (boxscore_with 10 player_501 batting_all) empty_db) = None
   \<and> map (\<lambda>t. length (snd (boxscore_statements
          (file_env ''data/boxscore_raw_776762.json'' (boxscore_with 10 player_501 batting_all))
          (boxscore_with 10 player_501 batting_all) empty_db) t))
        [''raw_json_data'', ''teams'', ''players'', ''boxscore''] = [1, 2, 1, 1]
   \<and> load_json_to_database
          (file_env ''data/boxscore_raw_776762.json'' (boxscore_with 10 player_501 batting_all))
          ''data/boxscore_raw_776762.json'' empty_db = (Inr True, empty_db)"
proof -
  let ?data = "boxscore_with 10 player_501 batting_all"
  let ?ev = "file_env ''data/boxscore_raw_776762.json'' ?data"
  have a: "fst (boxscore_statements ?ev ?data empty_db) = None"
    "map (\<lambda>t. length (snd (boxscore_statements ?ev ?data empty_db) t))
        [''raw_json_data'', ''teams'', ''players'', ''boxscore''] = [1, 2, 1, 1]"
    "fst (load_json_to_database ?ev ''data/boxscore_raw_776762.json'' empty_db) = Inr True"
    by code_simp+
  have p: "py_truthy ?data" "\<not> py_in_str ''combined_data'' ''data/boxscore_raw_776762.json''"
    "py_in_str ''boxscore_raw'' ''data/boxscore_raw_776762.json''"
    by code_simp+
  have "load_json_to_database ?ev ''data/boxscore_raw_776762.json'' empty_db
       = load_boxscore_data ?ev ?data empty_db"
    by (simp add: load_json_to_database_def file_env_def sample_env_def p)
  then have "snd (load_json_to_database ?ev ''data/boxscore_raw_776762.json'' empty_db)
      = empty_db"
    by (simp add: load_boxscore_data_keeps_store)
  with a(3) have "load_json_to_database ?ev ''data/boxscore_raw_776762.json'' empty_db
      = (Inr True, empty_db)"
    by (simp add: prod_eq_iff)
  with a(1,2) show ?thesis by simp
qed

section \<open>Recovering the game identifier from a file\<close>

text \<open>The two tiers of \<^verbatim>\<open>_extract_game_id_from_data\<close>: the top level, then one level down.\<close>

lemma extract_game_id_tiers:
  "map_of kvs ''game_id'' = Some g \<Longrightarrow> extract_game_id_from_data (JObj kvs) = g"
  "map_of kvs ''game_id'' = None \<Longrightarrow> map_of kvs ''gamePk'' = Some g \<Longrightarrow>
     extract_game_id_from_data (JObj kvs) = g"
  "map_of kvs ''game_id'' = None \<Longrightarrow> map_of kvs ''gamePk'' = None \<Longrightarrow>
     extract_game_id_from_data (JObj kvs) = probe_nested kvs"
  by (simp_all add: extract_game_id_from_data_def)

lemma probe_nested_finds:
  "probe_nested kvs \<noteq> JNull \<Longrightarrow>
     \<exists>key nested. (key, JObj nested) \<in> set kvs \<and> map_of nested ''gamePk'' = Some (probe_nested kvs)"
proof (induction kvs)
  case Nil
  then show ?case by simp
next
  case (Cons kv kvs)
  obtain key val where kv: "kv = (key, val)" by (cases kv)
  show ?case
  proof (cases "\<exists>nested g. val = JObj nested \<and> map_of nested ''gamePk'' = Some g")
    case True
    then obtain nested g where v: "val = JObj nested" "map_of nested ''gamePk'' = Some g"
      by blast
    then have "probe_nested (kv # kvs) = g" by (simp add: kv)
    moreover have "(key, JObj nested) \<in> set (kv # kvs)" by (simp add: kv v(1))
    ultimately show ?thesis using v(2) by blast
  next
    case False
    then have "probe_nested (kv # kvs) = probe_nested kvs"
      by (cases val) (auto simp: kv split: option.splits)
    with Cons show ?thesis by auto
  qed
qed

text \<open>
  Claim C6 at a boxscore file named \<^verbatim>\<open>boxscore_raw_776762.json\<close> whose document has no
  \<^verbatim>\<open>game_id\<close> or \<^verbatim>\<open>gamePk\<close> at the top level or one level down: the identifier the
  loader recovers is \<^verbatim>\<open>None\<close>, the load returns True, and the rows its statements write
  carry a NULL game id. The file name is only used to pick the loading path.
\<close>

theorem filename_game_id_not_used:
  "extract_game_id_from_data (boxscore_with 10 player_501 batting_all) = JNull
   \<and> fst (load_json_to_database
          (file_env ''data/boxscore_raw_776762.json'' (boxscore_with 10 player_501 batting_all))
          ''data/boxscore_raw_776762.json'' empty_db) = Inr True
   \<and> map (\<lambda>r. map r [''game_id'', ''player_id''])
        (snd (boxscore_statements
          (file_env ''data/boxscore_raw_776762.json'' (boxscore_with 10 player_501 batting_all))
          (boxscore_with 10 player_501 batting_all) empty_db) ''boxscore'')
     = [[SNull, SInt 501]]
   \<and> map (\<lambda>r. map r [''game_id'', ''data_type''])
        (snd (boxscore_statements
          (file_env ''data/boxscore_raw_776762.json'' (boxscore_with 10 player_501 batting_all))
          (boxscore_with 10 player_501 batting_all) empty_db) ''raw_json_data'')
     = [[SNull, SStr ''boxscore'']]"
  by code_simp

lemma without_transaction_fails:
  "fst r = Some e \<Longrightarrow> fst (without_transaction store r) = Inr False"
  by (cases r) (simp add: without_transaction_def)

lemma load_json_to_database_returns: "\<exists>b. fst (load_json_to_database ev path store) = Inr b"
proof -
  have c: "\<exists>b. fst (load_combined_data ev data store) = Inr b" for data
    unfolding load_combined_data_def by (auto split: sum.splits prod.splits option.splits)
  have w: "\<exists>b. fst (without_transaction store r) = Inr b" for r
    unfolding without_transaction_def by (auto split: prod.splits option.splits)
  show ?thesis
    unfolding load_json_to_database_def load_boxscore_data_def load_game_data_def
    using c w by (auto split: option.splits)
qed

section \<open>Failures of a load\<close>

text \<open>
  Claim C5, as the code has it: \<^verbatim>\<open>load_json_to_database\<close> never lets an exception reach
  its caller. When the statements of a file raise (a failed write included), on any of
  the three paths, the caller receives the return value False; on the combined path the
  stored tables are those from before the load.
\<close>

theorem write_failure_returns_False:
  assumes "load_from_json ev path = Some data" and "py_truthy data" and "connect_ok ev"
  shows "(\<forall>e. fst (load_json_to_database ev path store) \<noteq> Inl e)
    \<and> (\<forall>game_id game_date game_metadata e db.
          py_in_str ''combined_data'' path
          \<and> get0 data ''game_id'' = Inr game_id \<and> get0 data ''game_date'' = Inr game_date
          \<and> combined_metadata data = Inr game_metadata
          \<and> combined_transaction ev data game_id game_date game_metadata store = (Some e, db)
          \<longrightarrow> load_json_to_database ev path store = (Inr False, store))
    \<and> (\<forall>e db.
          \<not> py_in_str ''combined_data'' path \<and> py_in_str ''boxscore_raw'' path
          \<and> boxscore_statements ev data store = (Some e, db)
          \<longrightarrow> fst (load_json_to_database ev path store) = Inr False)
    \<and> (\<forall>e db.
          \<not> py_in_str ''combined_data'' path \<and> \<not> py_in_str ''boxscore_raw'' path
          \<and> py_in_str ''game_raw'' path
          \<and> game_statements ev data store = (Some e, db)
          \<longrightarrow> fst (load_json_to_database ev path store) = Inr False)"
proof (intro conjI allI impI)
  fix e
  from load_json_to_database_returns[of ev path store]
  show "fst (load_json_to_database ev path store) \<noteq> Inl e" by auto
next
  fix game_id game_date game_metadata e db
  assume "py_in_str ''combined_data'' path
          \<and> get0 data ''game_id'' = Inr game_id \<and> get0 data ''game_date'' = Inr game_date
          \<and> combined_metadata data = Inr game_metadata
          \<and> combined_transaction ev data game_id game_date game_metadata store = (Some e, db)"
  with assms show "load_json_to_database ev path store = (Inr False, store)"
    by (simp add: load_json_to_database_def load_combined_data_def bindE_def)
next
  fix e db
  assume "\<not> py_in_str ''combined_data'' path \<and> py_in_str ''boxscore_raw'' path
          \<and> boxscore_statements ev data store = (Some e, db)"
  with assms show "fst (load_json_to_database ev path store) = Inr False"
    by (simp add: load_json_to_database_def load_boxscore_data_def without_transaction_def)
next
  fix e db
  assume "\<not> py_in_str ''combined_data'' path \<and> \<not> py_in_str ''boxscore_raw'' path
          \<and> py_in_str ''game_raw'' path
          \<and> game_statements ev data store = (Some e, db)"
  with assms show "fst (load_json_to_database ev path store) = Inr False"
    by (simp add: load_json_to_database_def load_game_data_def without_transaction_def)
qed

text \<open>A combined file whose player insert fails with a storage error: the caller gets
  the value False, not the exception.\<close>

theorem write_failure_not_reraised_counterexample:
  "fst (combined_transaction (file_env ''data/combined_data_700001.json'' combined_without_player_id)
          combined_without_player_id (JInt 700001) (JStr ''2024-04-10'')
          (JObj [(''game_type'', JStr ''R''), (''official_date'', JNull),
                 (''series_description'', JNull)]) empty_db) = Some StorageError
   \<and> fst (load_json_to_database
            (file_env ''data/combined_data_700001.json'' combined_without_player_id)
            ''data/combined_data_700001.json'' empty_db) = Inr False"
  by code_simp

theorem write_failure_returns_False_witness:
  "load_json_to_database
     (file_env ''data/combined_data_700001.json'' combined_without_player_id)
     ''data/combined_data_700001.json'' empty_db = (Inr False, empty_db)"
proof -
  let ?ev = "file_env ''data/combined_data_700001.json'' combined_without_player_id"
  let ?meta = "JObj [(''game_type'', JStr ''R''), (''official_date'', JNull),
                 (''series_description'', JNull)]"
  let ?tx = "combined_transaction ?ev combined_without_player_id (JInt 700001)
      (JStr ''2024-04-10'') ?meta empty_db"
  have h: "load_from_json ?ev ''data/combined_data_700001.json'' = Some combined_without_player_id"
    "py_truthy combined_without_player_id" "connect_ok ?ev"
    "py_in_str ''combined_data'' ''data/combined_data_700001.json''"
    "get0 combined_without_player_id ''game_id'' = Inr (JInt 700001)"
    "get0 combined_without_player_id ''game_date'' = Inr (JStr ''2024-04-10'')"
    "combined_metadata combined_without_player_id = Inr ?meta"
    by code_simp+
  have "fst ?tx = Some StorageError" by code_simp
  then have tx: "?tx = (Some StorageError, snd ?tx)" by (simp add: prod_eq_iff)
  from write_failure_returns_False[OF h(1,2,3), of empty_db] h(4,5,6,7) tx
  show ?thesis by blast
qed

section \<open>The boxscore lines a load writes\<close>

lemma bindL_Inr [simp]: "bindL (Inr v) f = f v"
  by (simp add: bindL_def)

lemma bind_params_restrict:
  assumes "bind_params cs ps = Inr vals"
  shows "(\<lambda>c. if c \<in> set cs then vals c else SNull) = vals"
  using bind_params_other[OF assms] by (auto intro!: ext)

lemma insert_boxscore_stats_adds:
  assumes "insert_boxscore_stats game_id player_id team_id batting db = (None, db')"
  shows "\<exists>ps vals. boxscore_params game_id player_id team_id batting = Inr ps
     \<and> bind_params boxscore_columns ps = Inr vals
     \<and> db' ''boxscore'' = add_line (db ''boxscore'') vals"
proof -
  from assms obtain ps where
    ps: "boxscore_params game_id player_id team_id batting = Inr ps"
    and ex: "execute_query
        (IfNotExistsInsert ''boxscore'' [''game_id'', ''player_id''] boxscore_columns) ps db
        = (None, db')"
    by (auto simp: insert_boxscore_stats_def insert_boxscore_stats_query_def with_value_None)
  have m: "matches [''game_id'', ''player_id''] vals = (\<lambda>r. same_line r vals)" for vals
    by (rule ext) (simp add: matches_def same_line_def)
  have sub: "set ([''game_id'', ''player_id''] @ boxscore_columns) = set boxscore_columns"
    by (auto simp: boxscore_columns_def)
  from ex show ?thesis
  proof (cases rule: if_not_exists_insert_cases)
    case (1 vals)
    from bind_params_same_columns[OF 1(1) sub[symmetric]]
    have "bind_params boxscore_columns ps = Inr vals" .
    moreover have "db' ''boxscore'' = add_line (db ''boxscore'') vals"
      using 1(2,3) by (simp add: add_line_def m)
    ultimately show ?thesis using ps by blast
  next
    case (2 vals)
    from bind_params_same_columns[OF 2(1) sub[symmetric]]
    have b: "bind_params boxscore_columns ps = Inr vals" .
    have "db' ''boxscore'' = add_line (db ''boxscore'') vals"
      using 2(2,3) by (simp add: add_line_def m bind_params_restrict[OF b])
    with b ps show ?thesis by blast
  qed
qed

text \<open>No run of the boxscore statement changes a line that was stored before.\<close>

lemma insert_boxscore_stats_keeps_lines:
  assumes "insert_boxscore_stats game_id player_id team_id batting db = (None, db')"
  shows "take (length (db ''boxscore'')) (db' ''boxscore'') = db ''boxscore''"
proof -
  from insert_boxscore_stats_adds[OF assms] obtain vals where
    "db' ''boxscore'' = add_line (db ''boxscore'') vals" by blast
  then show ?thesis by (simp add: add_line_def)
qed

lemma process_player_lines:
  assumes "process_player game_id team_info player_data db = (None, db')"
  shows "db' ''boxscore'' =
     foldl add_line (db ''boxscore'') (player_line game_id team_info player_data)"
proof -
  from assms obtain person stats db1 batting where
    person: "py_get player_data ''person'' (JObj []) = Inr person"
    and stats: "py_get player_data ''stats'' (JObj []) = Inr stats"
    and pl: "(if py_truthy person then
            with_value (get0 team_info ''id'') db (\<lambda>team_id. insert_player person team_id db)
          else (None, db)) = (None, db1)"
    and batting: "py_get stats ''batting'' (JObj []) = Inr batting"
    and bx: "(if py_truthy batting then
           with_value (get0 person ''id'') db1 (\<lambda>player_id.
           with_value (get0 team_info ''id'') db1 (\<lambda>team_id.
             insert_boxscore_stats game_id player_id team_id batting db1))
         else (None, db1)) = (None, db')"
    unfolding process_player_def with_value_None and_then_None by blast
  have "frames ''boxscore'' (\<lambda>db. if py_truthy person then
            with_value (get0 team_info ''id'') db (\<lambda>team_id. insert_player person team_id db)
          else (None, db))"
    by (intro frames_if frames_with_value frames_skip frames_insert_player) simp
  from framesD[OF this pl] have same: "db1 ''boxscore'' = db ''boxscore''" .
  show ?thesis
  proof (cases "py_truthy batting")
    case True
    with bx obtain player_id team_id where
      ids: "get0 person ''id'' = Inr player_id" "get0 team_info ''id'' = Inr team_id"
      and ins: "insert_boxscore_stats game_id player_id team_id batting db1 = (None, db')"
      by (auto simp: with_value_None)
    from insert_boxscore_stats_adds[OF ins] obtain ps vals where
      "boxscore_params game_id player_id team_id batting = Inr ps"
      "bind_params boxscore_columns ps = Inr vals"
      "db' ''boxscore'' = add_line (db1 ''boxscore'') vals" by blast
    with person stats batting True ids same show ?thesis
      by (simp add: player_line_def)
  next
    case False
    with bx have "db' = db1" by simp
    with person stats batting False same show ?thesis
      by (simp add: player_line_def)
  qed
qed

lemma process_players_lines:
  "process_players game_id team_info items db = (None, db') \<Longrightarrow>
     db' ''boxscore'' = foldl add_line (db ''boxscore'') (player_lines game_id team_info items)"
proof (induction items arbitrary: db)
  case Nil
  then show ?case by simp
next
  case (Cons kv items)
  obtain player_key player_data where kv: "kv = (player_key, player_data)" by (cases kv)
  show ?case
  proof (cases "startswith player_key ''ID''")
    case True
    with Cons.prems kv obtain db1 where
      p: "process_player game_id team_info player_data db = (None, db1)"
      and rest: "process_players game_id team_info items db1 = (None, db')"
      by (auto simp: and_then_None)
    from Cons.IH[OF rest] process_player_lines[OF p] True show ?thesis
      by (simp add: kv)
  next
    case False
    with Cons.prems kv have "process_players game_id team_info items db = (None, db')" by simp
    from Cons.IH[OF this] False show ?thesis by (simp add: kv)
  qed
qed

lemma process_team_lines:
  assumes "process_team game_id teams team_type db = (None, db')"
  shows "db' ''boxscore'' = foldl add_line (db ''boxscore'') (team_lines game_id teams team_type)"
proof -
  from assms obtain team_data team_info players db1 items where
    g: "py_get teams team_type (JObj []) = Inr team_data"
       "py_get team_data ''team'' (JObj []) = Inr team_info"
       "py_get team_data ''players'' (JObj []) = Inr players"
       "py_items players = Inr items"
    and t: "(if py_truthy team_info then insert_team team_info db else (None, db)) = (None, db1)"
    and p: "process_players game_id team_info items db1 = (None, db')"
    unfolding process_team_def with_value_None and_then_None by blast
  from optional_insert_team_frame[OF t, of "''boxscore''"]
  have "db1 ''boxscore'' = db ''boxscore''" by simp
  with process_players_lines[OF p] g show ?thesis by (simp add: team_lines_def)
qed

lemma process_boxscore_data_lines:
  assumes "process_boxscore_data game_id boxscore_data db = (None, db')"
  shows "db' ''boxscore'' = foldl add_line (db ''boxscore'') (boxscore_lines game_id boxscore_data)"
proof -
  from assms obtain teams db1 where
    g: "py_get boxscore_data ''teams'' (JObj []) = Inr teams"
    and h: "process_team game_id teams ''home'' db = (None, db1)"
    and a: "process_team game_id teams ''away'' db1 = (None, db')"
    unfolding process_boxscore_data_def with_value_None and_then_None by blast
  from process_team_lines[OF h] process_team_lines[OF a] g show ?thesis
    by (simp add: boxscore_lines_def)
qed

lemma add_line_cases:
  obtains "list_ex (\<lambda>r'. same_line r' l) rows" "add_line rows l = rows"
  | "\<not> list_ex (\<lambda>r'. same_line r' l) rows" "add_line rows l = rows @ [l]"
  by (cases "list_ex (\<lambda>r'. same_line r' l) rows") (simp_all add: add_line_def)

lemma add_lines_subset: "set (foldl add_line rows ls) \<subseteq> set rows \<union> set ls"
proof (induction ls arbitrary: rows)
  case Nil
  then show ?case by simp
next
  case (Cons l ls)
  have "set (add_line rows l) \<subseteq> set rows \<union> {l}" by (auto simp: add_line_def)
  with Cons[of "add_line rows l"] show ?case by auto
qed

lemma add_lines_keeps: "set rows \<subseteq> set (foldl add_line rows ls)"
proof (induction ls arbitrary: rows)
  case Nil
  then show ?case by simp
next
  case (Cons l ls)
  have "set rows \<subseteq> set (add_line rows l)" by (auto simp: add_line_def)
  with Cons[of "add_line rows l"] show ?case by auto
qed

lemma same_line_refl:
  "l ''game_id'' \<noteq> SNull \<Longrightarrow> l ''player_id'' \<noteq> SNull \<Longrightarrow> same_line l l"
  by (simp add: same_line_def sql_eq_def)

lemma add_lines_covers:
  assumes "l \<in> set ls" "l ''game_id'' \<noteq> SNull" "l ''player_id'' \<noteq> SNull"
  shows "\<exists>r\<in>set (foldl add_line rows ls). same_line r l"
  using assms(1)
proof (induction ls arbitrary: rows)
  case Nil
  then show ?case by simp
next
  case (Cons a ls)
  show ?case
  proof (cases "l = a")
    case True
    have "\<exists>r\<in>set (add_line rows l). same_line r l"
      using same_line_refl[OF assms(2,3)] by (auto simp: add_line_def list_ex_iff)
    with add_lines_keeps[of "add_line rows l" ls] True show ?thesis by auto
  next
    case False
    with Cons.prems have "l \<in> set ls" by simp
    from Cons.IH[OF this, of "add_line rows a"] show ?thesis by simp
  qed
qed

lemma add_lines_nothing:
  "\<forall>l\<in>set ls. \<exists>r\<in>set rows. same_line r l \<Longrightarrow> foldl add_line rows ls = rows"
  by (induction ls) (auto simp: add_line_def list_ex_iff)

lemma add_lines_distinct:
  assumes "\<forall>l\<in>set ls. l ''game_id'' = gid \<and> l ''player_id'' \<noteq> SNull" "gid \<noteq> SNull"
    and "distinct (map (\<lambda>r. r ''player_id'') (filter (\<lambda>r. r ''game_id'' = gid) rows))"
  shows "distinct (map (\<lambda>r. r ''player_id'')
           (filter (\<lambda>r. r ''game_id'' = gid) (foldl add_line rows ls)))"
  using assms(1,3)
proof (induction ls arbitrary: rows)
  case Nil
  then show ?case by simp
next
  case (Cons l ls)
  from Cons.prems(1) have l: "l ''game_id'' = gid" "l ''player_id'' \<noteq> SNull" by simp_all
  have "distinct (map (\<lambda>r. r ''player_id'')
          (filter (\<lambda>r. r ''game_id'' = gid) (add_line rows l)))"
  proof (cases rule: add_line_cases[of l rows])
    case 1
    with Cons.prems(2) show ?thesis by simp
  next
    case 2
    from 2(1) have "\<forall>r\<in>set rows. r ''game_id'' = gid \<longrightarrow> r ''player_id'' \<noteq> l ''player_id''"
      using l assms(2) by (auto simp: list_ex_iff same_line_def sql_eq_def)
    with Cons.prems(2) l 2(2) show ?thesis by auto
  qed
  with Cons.IH[of "add_line rows l"] Cons.prems(1) show ?case by simp
qed

lemma in_bindL: "x \<in> set (bindL v f) \<Longrightarrow> \<exists>u. v = Inr u \<and> x \<in> set (f u)"
  by (cases v) (simp_all add: bindL_def)

lemma boxscore_params_ids:
  "boxscore_params game_id player_id team_id batting = Inr ps \<Longrightarrow>
     map_of ps ''game_id'' = Some (PJson game_id) \<and> map_of ps ''player_id'' = Some (PJson player_id)"
  unfolding boxscore_params_def bindE_Inr by auto

lemma player_line_game_id:
  assumes "l \<in> set (player_line game_id team_info player_data)"
    and "bind_param (PJson game_id) = Inr gid"
  shows "l ''game_id'' = gid"
proof -
  from assms(1) obtain player_id team_id batting ps where
    ps: "boxscore_params game_id player_id team_id batting = Inr ps"
    and l: "bind_params boxscore_columns ps = Inr l"
    unfolding player_line_def
    by (auto dest!: in_bindL split: if_splits)
  from bind_params_lookup[OF l, of "''game_id''"] boxscore_params_ids[OF ps] assms(2)
  show ?thesis by (simp add: boxscore_columns_def)
qed

lemma player_lines_game_id:
  "l \<in> set (player_lines game_id team_info items) \<Longrightarrow> bind_param (PJson game_id) = Inr gid \<Longrightarrow>
     l ''game_id'' = gid"
  by (induction items) (auto split: if_splits dest: player_line_game_id)

lemma combined_lines_game_id:
  assumes "l \<in> set (combined_lines data)"
    and "get0 data ''game_id'' = Inr game_id" "bind_param (PJson game_id) = Inr gid"
  shows "l ''game_id'' = gid"
proof -
  from assms(1,2) obtain team_info items where
    "l \<in> set (player_lines game_id team_info items)"
    unfolding combined_lines_def boxscore_lines_def team_lines_def
    by (auto dest!: in_bindL split: if_splits)
  from player_lines_game_id[OF this assms(3)] show ?thesis .
qed

text \<open>What a combined load that returned True did to \<^verbatim>\<open>games\<close> and \<^verbatim>\<open>boxscore\<close>.\<close>

lemma load_combined_data_steps:
  assumes "load_combined_data ev data store = (Inr True, db')"
    and "py_in ''game_data'' data = Inr True"
  obtains ps db1 db2 where
    "combined_game_params ev data = Inr ps"
    "execute_query insert_game_query ps db1 = (None, db2)"
    "db1 ''games'' = store ''games''"
    "db' ''games'' = db2 ''games''"
    "db' ''boxscore'' = foldl add_line (store ''boxscore'') (combined_lines data)"
proof -
  from assms(1) obtain game_id game_date game_metadata where
    gid: "get0 data ''game_id'' = Inr game_id"
    and gdate: "get0 data ''game_date'' = Inr game_date"
    and meta: "combined_metadata data = Inr game_metadata"
    and tx: "combined_transaction ev data game_id game_date game_metadata store = (None, db')"
    by (rule load_combined_data_True)
  from tx obtain dba dbb where
    raw: "save_raw_json ev game_id ''combined'' data store = (None, dba)"
    and g0: "with_value (py_in ''game_data'' data) dba (\<lambda>present.
          if present then
            with_value (py_index data ''game_data'') dba (\<lambda>game_data.
              process_game_data ev game_id game_data game_date game_metadata dba)
          else (None, dba)) = (None, dbb)"
    and b0: "with_value (py_in ''boxscore'' data) dbb (\<lambda>present.
         if present then
           with_value (py_index data ''boxscore'') dbb (\<lambda>boxscore.
             process_boxscore_data game_id boxscore dbb)
         else (None, dbb)) = (None, db')"
    unfolding combined_transaction_def and_then_None by blast
  from g0 assms(2) obtain game_data where
    idx: "py_index data ''game_data'' = Inr game_data"
    and pg: "process_game_data ev game_id game_data game_date game_metadata dba = (None, dbb)"
    by (auto simp: with_value_None)
  from pg obtain teams_data home_team away_team dbc dbd where
    t: "py_get game_data ''teams'' (JObj []) = Inr teams_data"
       "get_in teams_data ''home'' ''team'' (JObj []) = Inr home_team"
       "get_in teams_data ''away'' ''team'' (JObj []) = Inr away_team"
    and th: "(if py_truthy home_team then insert_team home_team dba else (None, dba)) = (None, dbc)"
    and ta: "(if py_truthy away_team then insert_team away_team dbc else (None, dbc)) = (None, dbd)"
    and ig: "insert_game ev game_id game_data home_team away_team game_date game_metadata dbd
       = (None, dbb)"
    unfolding process_game_data_def with_value_None and_then_None by blast
  from ig obtain ps where
    ps: "game_params ev game_id game_data home_team away_team game_date game_metadata = Inr ps"
    and ex: "execute_query insert_game_query ps dbd = (None, dbb)"
    by (auto simp: insert_game_def with_value_None)
  have cps: "combined_game_params ev data = Inr ps"
    using gid gdate meta idx t ps by (simp add: combined_game_params_def bindE_def)
  have games1: "dbd ''games'' = store ''games''"
    using framesD[OF frames_save_raw_json raw, of "''games''"]
      optional_insert_team_frame[OF th, of "''games''"]
      optional_insert_team_frame[OF ta, of "''games''"] by simp
  have "frames ''games'' (\<lambda>db. with_value (py_in ''boxscore'' data) db (\<lambda>present.
         if present then
           with_value (py_index data ''boxscore'') db (\<lambda>boxscore.
             process_boxscore_data game_id boxscore db)
         else (None, db)))"
    by (intro frames_with_value frames_if frames_skip frames_process_boxscore_data) simp_all
  from framesD[OF this b0] have games2: "db' ''games'' = dbb ''games''" .
  have box1: "dbb ''boxscore'' = store ''boxscore''"
    using framesD[OF frames_save_raw_json raw, of "''boxscore''"]
      framesD[OF frames_process_game_data pg, of "''boxscore''"] by simp
  from b0 obtain present where present: "py_in ''boxscore'' data = Inr present"
    and b1: "(if present then
           with_value (py_index data ''boxscore'') dbb (\<lambda>boxscore.
             process_boxscore_data game_id boxscore dbb)
         else (None, dbb)) = (None, db')"
    by (auto simp: with_value_None)
  have box2: "db' ''boxscore'' = foldl add_line (store ''boxscore'') (combined_lines data)"
  proof (cases present)
    case True
    with b1 obtain boxscore where bi: "py_index data ''boxscore'' = Inr boxscore"
      and pb: "process_boxscore_data game_id boxscore dbb = (None, db')"
      by (auto simp: with_value_None)
    from process_boxscore_data_lines[OF pb] box1 gid present True bi show ?thesis
      by (simp add: combined_lines_def)
  next
    case False
    with b1 have "db' = dbb" by simp
    with box1 gid present False show ?thesis by (simp add: combined_lines_def)
  qed
  from cps ex games1 games2 box2 that show ?thesis by blast
qed

lemma insert_game_query_effect:
  assumes "execute_query insert_game_query ps db = (None, db')"
  obtains vals where "bind_params game_columns ps = Inr vals" "vals ''game_id'' \<noteq> SNull"
    "filter (\<lambda>r. r ''game_id'' = vals ''game_id'') (db ''games'') = [] \<longrightarrow>
       filter (\<lambda>r. r ''game_id'' = vals ''game_id'') (db' ''games'') = [vals]"
    "\<forall>r0. filter (\<lambda>r. r ''game_id'' = vals ''game_id'') (db ''games'') = [r0] \<longrightarrow>
       filter (\<lambda>r. r ''game_id'' = vals ''game_id'') (db' ''games'')
         = [\<lambda>c. if c \<in> set game_update_columns then vals c else r0 c]"
  using assms unfolding insert_game_query_def
proof (cases rule: upsert_cases)
  case (1 vals)
  have cols: "bind_params game_columns ps = Inr vals"
    by (rule bind_params_same_columns[OF 1(1)])
       (auto simp: game_columns_def game_update_columns_def)
  from 1(2) obtain r1 where r1: "r1 \<in> set (db ''games'')" "sql_eq (r1 ''game_id'') (vals ''game_id'')"
    by (auto simp: list_ex_iff matches_game_id)
  then have nn: "vals ''game_id'' \<noteq> SNull" and r1_id: "r1 ''game_id'' = vals ''game_id''"
    by (simp_all add: sql_eq_def)
  define f where "f = (\<lambda>r. if matches [''game_id''] vals r
      then (\<lambda>c. if c \<in> set game_update_columns then vals c else r c) else r)"
  have db': "db' ''games'' = map f (db ''games'')"
    using 1(3) unfolding f_def by simp
  have keep: "f r ''game_id'' = r ''game_id''" for r
    by (simp add: f_def game_update_columns_def)
  have ne: "filter (\<lambda>r. r ''game_id'' = vals ''game_id'') (db ''games'') \<noteq> []"
    using r1(1) r1_id by (auto simp: filter_empty_conv)
  have fm: "filter (\<lambda>r. r ''game_id'' = vals ''game_id'') (db' ''games'')
      = map f (filter (\<lambda>r. r ''game_id'' = vals ''game_id'') (db ''games''))"
    by (simp add: db' filter_map o_def keep)
  have upd: "\<forall>r0. filter (\<lambda>r. r ''game_id'' = vals ''game_id'') (db ''games'') = [r0] \<longrightarrow>
       filter (\<lambda>r. r ''game_id'' = vals ''game_id'') (db' ''games'')
         = [\<lambda>c. if c \<in> set game_update_columns then vals c else r0 c]"
  proof (intro allI impI)
    fix r0
    assume one: "filter (\<lambda>r. r ''game_id'' = vals ''game_id'') (db ''games'') = [r0]"
    then have "r0 \<in> set (filter (\<lambda>r. r ''game_id'' = vals ''game_id'') (db ''games''))" by simp
    then have "r0 ''game_id'' = vals ''game_id''" by simp
    with nn have "matches [''game_id''] vals r0" by (simp add: matches_game_id sql_eq_def)
    then have "f r0 = (\<lambda>c. if c \<in> set game_update_columns then vals c else r0 c)"
      by (simp add: f_def)
    with fm one show "filter (\<lambda>r. r ''game_id'' = vals ''game_id'') (db' ''games'')
         = [\<lambda>c. if c \<in> set game_update_columns then vals c else r0 c]" by simp
  qed
  from that[OF cols nn] ne upd show ?thesis by blast
next
  case (2 vals)
  have cols: "bind_params game_columns ps = Inr vals"
    by (rule bind_params_same_columns[OF 2(1)])
       (auto simp: game_columns_def game_update_columns_def)
  have row: "(\<lambda>c. if c \<in> set game_columns then vals c else SNull) = vals"
    by (rule bind_params_restrict[OF cols])
  from 2(4) have nn: "vals ''game_id'' \<noteq> SNull"
    and fresh: "\<forall>r\<in>set (db ''games''). r ''game_id'' \<noteq> vals ''game_id''"
    unfolding row by (auto simp: pk_ok_def primary_key_def list_all_iff)
  have db': "db' ''games'' = db ''games'' @ [vals]" using 2(3) unfolding row by simp
  from fresh have e: "filter (\<lambda>r. r ''game_id'' = vals ''game_id'') (db ''games'') = []"
    by (auto simp: filter_empty_conv)
  then have "filter (\<lambda>r. r ''game_id'' = vals ''game_id'') (db' ''games'') = [vals]"
    by (simp add: db')
  with that[OF cols nn] e show ?thesis by simp
qed

lemma combined_game_params_keys:
  assumes "combined_game_params ev1 data = Inr ps1" "combined_game_params ev2 data = Inr ps2"
    and "c \<in> {''game_id'', ''home_team_id'', ''away_team_id''}"
  shows "map_of ps1 c = map_of ps2 c"
proof -
  from assms(1) obtain game_id game_date game_metadata game_data home_team away_team where
    g: "get0 data ''game_id'' = Inr game_id" "get0 data ''game_date'' = Inr game_date"
       "combined_metadata data = Inr game_metadata" "py_index data ''game_data'' = Inr game_data"
    and t: "\<exists>teams_data. py_get game_data ''teams'' (JObj []) = Inr teams_data
       \<and> get_in teams_data ''home'' ''team'' (JObj []) = Inr home_team
       \<and> get_in teams_data ''away'' ''team'' (JObj []) = Inr away_team"
    and p1: "game_params ev1 game_id game_data home_team away_team game_date game_metadata = Inr ps1"
    unfolding combined_game_params_def bindE_Inr by blast
  from assms(2) g t have
    p2: "game_params ev2 game_id game_data home_team away_team game_date game_metadata = Inr ps2"
    unfolding combined_game_params_def bindE_Inr by auto
  from p1 obtain h1 a1 where
    i1: "get0 home_team ''id'' = Inr h1" "get0 away_team ''id'' = Inr a1"
    and m1: "map_of ps1 ''game_id'' = Some (PJson game_id)"
      "map_of ps1 ''home_team_id'' = Some (PJson h1)"
      "map_of ps1 ''away_team_id'' = Some (PJson a1)"
    by (rule game_params_fields)
  from p2 obtain h2 a2 where
    i2: "get0 home_team ''id'' = Inr h2" "get0 away_team ''id'' = Inr a2"
    and m2: "map_of ps2 ''game_id'' = Some (PJson game_id)"
      "map_of ps2 ''home_team_id'' = Some (PJson h2)"
      "map_of ps2 ''away_team_id'' = Some (PJson a2)"
    by (rule game_params_fields)
  from i1 i2 m1 m2 assms(3) show ?thesis by auto
qed

lemma combined_game_params_game_id:
  assumes "combined_game_params ev data = Inr ps" "get0 data ''game_id'' = Inr game_id"
  shows "map_of ps ''game_id'' = Some (PJson game_id)"
proof -
  from assms obtain game_data home_team away_team game_date game_metadata where
    "game_params ev game_id game_data home_team away_team game_date game_metadata = Inr ps"
    unfolding combined_game_params_def bindE_Inr by auto
  then show ?thesis by (rule game_params_fields)
qed

lemma combined_game_rows_agree:
  assumes "combined_game_params ev1 data = Inr ps1" "combined_game_params ev2 data = Inr ps2"
    and "bind_params game_columns ps1 = Inr vals1" "bind_params game_columns ps2 = Inr vals2"
    and "c \<notin> set game_update_columns"
  shows "vals1 c = vals2 c"
proof (cases "c \<in> set game_columns")
  case True
  with assms(5) have c: "c \<in> {''game_id'', ''home_team_id'', ''away_team_id''}"
    by (auto simp: game_columns_def game_update_columns_def)
  from bind_params_lookup[OF assms(3) True] bind_params_lookup[OF assms(4) True]
    combined_game_params_keys[OF assms(1,2) c]
  show ?thesis by auto
next
  case False
  with bind_params_other[OF assms(3)] bind_params_other[OF assms(4)] show ?thesis by simp
qed

lemma reload_game_row:
  assumes l1: "load_combined_data ev1 data store = (Inr True, db1)"
    and l2: "load_combined_data ev2 data db1 = (Inr True, db2)"
    and gd: "py_in ''game_data'' data = Inr True"
    and gid: "get0 data ''game_id'' = Inr game_id" "bind_param (PJson game_id) = Inr gid"
    and fresh_g: "filter (\<lambda>r. r ''game_id'' = gid) (store ''games'') = []"
  shows "gid \<noteq> SNull \<and> (\<exists>row. combined_game_row ev2 data = Inr row
            \<and> filter (\<lambda>r. r ''game_id'' = gid) (db2 ''games'') = [row])"
proof -
  from l1 gd obtain ps1 dba1 dbb1 where
    p1: "combined_game_params ev1 data = Inr ps1"
    and e1: "execute_query insert_game_query ps1 dba1 = (None, dbb1)"
    and g1: "dba1 ''games'' = store ''games''" "db1 ''games'' = dbb1 ''games''"
    by (rule load_combined_data_steps)
  from l2 gd obtain ps2 dba2 dbb2 where
    p2: "combined_game_params ev2 data = Inr ps2"
    and e2: "execute_query insert_game_query ps2 dba2 = (None, dbb2)"
    and g2: "dba2 ''games'' = db1 ''games''" "db2 ''games'' = dbb2 ''games''"
    by (rule load_combined_data_steps)
  from e1 obtain vals1 where
    v1: "bind_params game_columns ps1 = Inr vals1" "vals1 ''game_id'' \<noteq> SNull"
    and ins: "filter (\<lambda>r. r ''game_id'' = vals1 ''game_id'') (dba1 ''games'') = [] \<longrightarrow>
       filter (\<lambda>r. r ''game_id'' = vals1 ''game_id'') (dbb1 ''games'') = [vals1]"
    by (rule insert_game_query_effect)
  from e2 obtain vals2 where
    v2: "bind_params game_columns ps2 = Inr vals2"
    and upd: "\<forall>r0. filter (\<lambda>r. r ''game_id'' = vals2 ''game_id'') (dba2 ''games'') = [r0] \<longrightarrow>
       filter (\<lambda>r. r ''game_id'' = vals2 ''game_id'') (dbb2 ''games'')
         = [\<lambda>c. if c \<in> set game_update_columns then vals2 c else r0 c]"
    by (rule insert_game_query_effect)
  have in_cols: "''game_id'' \<in> set game_columns" by (simp add: game_columns_def)
  have id1: "vals1 ''game_id'' = gid"
    using bind_params_lookup[OF v1(1) in_cols]
      combined_game_params_game_id[OF p1 gid(1)] gid(2) by simp
  have id2: "vals2 ''game_id'' = gid"
    using bind_params_lookup[OF v2 in_cols]
      combined_game_params_game_id[OF p2 gid(1)] gid(2) by simp
  have nn: "gid \<noteq> SNull" using v1(2) id1 by simp
  from ins have "filter (\<lambda>r. r ''game_id'' = gid) (db1 ''games'') = [vals1]"
    unfolding id1 g1 using fresh_g by blast
  then have one: "filter (\<lambda>r. r ''game_id'' = vals2 ''game_id'') (dba2 ''games'') = [vals1]"
    unfolding id2 g2 .
  have agree: "(if c \<in> set game_update_columns then vals2 c else vals1 c) = vals2 c" for c
    using combined_game_rows_agree[OF p1 p2 v1(1) v2, of c] by simp
  from upd one have "filter (\<lambda>r. r ''game_id'' = vals2 ''game_id'') (dbb2 ''games'')
         = [\<lambda>c. if c \<in> set game_update_columns then vals2 c else vals1 c]" by blast
  then have second: "filter (\<lambda>r. r ''game_id'' = gid) (db2 ''games'') = [vals2]"
    unfolding id2 g2 agree .
  have row: "combined_game_row ev2 data = Inr vals2"
    using p2 v2 by (simp add: combined_game_row_def bindE_def)
  from nn row second show ?thesis by blast
qed

lemma combined_lines_keys:
  assumes gid: "get0 data ''game_id'' = Inr game_id" "bind_param (PJson game_id) = Inr gid"
    and ids: "\<forall>l\<in>set (combined_lines data). l ''player_id'' \<noteq> SNull"
  shows "\<forall>l\<in>set (combined_lines data). l ''game_id'' = gid \<and> l ''player_id'' \<noteq> SNull"
proof
  fix l assume l: "l \<in> set (combined_lines data)"
  from combined_lines_game_id[OF l gid] ids l
  show "l ''game_id'' = gid \<and> l ''player_id'' \<noteq> SNull" by blast
qed

lemma add_lines_covers_all:
  assumes "\<forall>l\<in>set ls. l ''game_id'' = gid \<and> l ''player_id'' \<noteq> SNull" "gid \<noteq> SNull"
  shows "\<forall>l\<in>set ls. \<exists>r\<in>set (foldl add_line rows ls). same_line r l"
proof
  fix l assume l: "l \<in> set ls"
  with assms have "l ''game_id'' \<noteq> SNull" "l ''player_id'' \<noteq> SNull" by auto
  from add_lines_covers[OF l this]
  show "\<exists>r\<in>set (foldl add_line rows ls). same_line r l" .
qed

lemma add_lines_twice:
  assumes "\<forall>l\<in>set ls. l ''game_id'' = gid \<and> l ''player_id'' \<noteq> SNull" "gid \<noteq> SNull"
  shows "foldl add_line (foldl add_line rows ls) ls = foldl add_line rows ls"
  by (rule add_lines_nothing) (rule add_lines_covers_all[OF assms])

lemma add_lines_game_rows:
  assumes "filter (\<lambda>r. r ''game_id'' = gid) rows = []"
  shows "set (filter (\<lambda>r. r ''game_id'' = gid) (foldl add_line rows ls)) \<subseteq> set ls"
proof
  fix r assume "r \<in> set (filter (\<lambda>r. r ''game_id'' = gid) (foldl add_line rows ls))"
  then have r1: "r \<in> set (foldl add_line rows ls)" and r2: "r ''game_id'' = gid" by simp_all
  from r1 add_lines_subset[of rows ls] have "r \<in> set rows \<or> r \<in> set ls" by blast
  moreover have "r \<notin> set rows"
  proof
    assume "r \<in> set rows"
    with r2 have "r \<in> set (filter (\<lambda>r. r ''game_id'' = gid) rows)" by simp
    with assms show False by simp
  qed
  ultimately show "r \<in> set ls" by blast
qed

lemma same_lineD:
  "same_line r l \<Longrightarrow> r ''game_id'' = l ''game_id'' \<and> r ''player_id'' = l ''player_id''"
  unfolding same_line_def sql_eq_def by blast

lemma add_lines_covers_player:
  assumes "\<forall>l\<in>set ls. l ''game_id'' = gid \<and> l ''player_id'' \<noteq> SNull" "gid \<noteq> SNull"
    and l: "l \<in> set ls"
  shows "\<exists>r\<in>set (filter (\<lambda>r. r ''game_id'' = gid) (foldl add_line rows ls)).
           r ''player_id'' = l ''player_id''"
proof -
  from assms(1) l have lg: "l ''game_id'' = gid" and lp: "l ''player_id'' \<noteq> SNull" by auto
  from lg assms(2) have "l ''game_id'' \<noteq> SNull" by simp
  from add_lines_covers[OF l this lp, of rows]
  obtain r where r: "r \<in> set (foldl add_line rows ls)" and s: "same_line r l" ..
  from same_lineD[OF s] lg have "r ''game_id'' = gid" and p: "r ''player_id'' = l ''player_id''"
    by simp_all
  with r have "r \<in> set (filter (\<lambda>r. r ''game_id'' = gid) (foldl add_line rows ls))" by simp
  with p show ?thesis ..
qed

section \<open>Loading the same combined payload twice\<close>

text \<open>
  What two loads of one payload keep. A combined payload with a \<^verbatim>\<open>game_data\<close> body is
  loaded twice, both loads returning True, into a store that held no row of \<^verbatim>\<open>games\<close> and
  no row of \<^verbatim>\<open>boxscore\<close> for its game, and every boxscore line of the payload has a player
  id. Then the store holds exactly one row of \<^verbatim>\<open>games\<close> for the game, equal to the row
  computed from the second load's input; the \<^verbatim>\<open>boxscore\<close> rows of the game have pairwise
  different player ids, each of them is a line computed from the payload, and every line
  of the payload has its row; the second load left \<^verbatim>\<open>boxscore\<close> as the first one made it.
\<close>

lemma reload_same_combined_payload:
  assumes l1: "load_combined_data ev1 data store = (Inr True, db1)"
    and l2: "load_combined_data ev2 data db1 = (Inr True, db2)"
    and gd: "py_in ''game_data'' data = Inr True"
    and gid: "get0 data ''game_id'' = Inr game_id" "bind_param (PJson game_id) = Inr gid"
    and fresh_g: "filter (\<lambda>r. r ''game_id'' = gid) (store ''games'') = []"
    and fresh_b: "filter (\<lambda>r. r ''game_id'' = gid) (store ''boxscore'') = []"
    and ids: "\<forall>l\<in>set (combined_lines data). l ''player_id'' \<noteq> SNull"
  shows "(\<exists>row. combined_game_row ev2 data = Inr row
            \<and> filter (\<lambda>r. r ''game_id'' = gid) (db2 ''games'') = [row])
     \<and> distinct (map (\<lambda>r. r ''player_id'') (filter (\<lambda>r. r ''game_id'' = gid) (db2 ''boxscore'')))
     \<and> set (filter (\<lambda>r. r ''game_id'' = gid) (db2 ''boxscore'')) \<subseteq> set (combined_lines data)
     \<and> (\<forall>l\<in>set (combined_lines data).
          \<exists>r\<in>set (filter (\<lambda>r. r ''game_id'' = gid) (db2 ''boxscore'')).
            r ''player_id'' = l ''player_id'')
     \<and> db2 ''boxscore'' = db1 ''boxscore''"
proof -
  let ?L = "combined_lines data"
  from reload_game_row[OF l1 l2 gd gid fresh_g]
  have nn: "gid \<noteq> SNull"
    and game: "\<exists>row. combined_game_row ev2 data = Inr row
            \<and> filter (\<lambda>r. r ''game_id'' = gid) (db2 ''games'') = [row]"
    by blast+
  from l1 gd obtain b1: "db1 ''boxscore'' = foldl add_line (store ''boxscore'') ?L"
    by (rule load_combined_data_steps)
  from l2 gd obtain b2: "db2 ''boxscore'' = foldl add_line (db1 ''boxscore'') ?L"
    by (rule load_combined_data_steps)
  note lines = combined_lines_keys[OF gid ids]
  have same: "db2 ''boxscore'' = db1 ''boxscore''"
    unfolding b2 b1 by (rule add_lines_twice[OF lines nn])
  have d0: "distinct (map (\<lambda>r. r ''player_id'')
      (filter (\<lambda>r. r ''game_id'' = gid) (store ''boxscore'')))"
    unfolding fresh_b by simp
  have dist: "distinct (map (\<lambda>r. r ''player_id'')
      (filter (\<lambda>r. r ''game_id'' = gid) (db2 ''boxscore'')))"
    unfolding same b1 by (rule add_lines_distinct[OF lines nn d0])
  have sub: "set (filter (\<lambda>r. r ''game_id'' = gid) (db2 ''boxscore'')) \<subseteq> set ?L"
    unfolding same b1 by (rule add_lines_game_rows[OF fresh_b])
  have cov: "\<forall>l\<in>set ?L. \<exists>r\<in>set (filter (\<lambda>r. r ''game_id'' = gid) (db2 ''boxscore'')).
            r ''player_id'' = l ''player_id''"
    unfolding same b1
  proof
    fix l assume "l \<in> set ?L"
    from add_lines_covers_player[OF lines nn this]
    show "\<exists>r\<in>set (filter (\<lambda>r. r ''game_id'' = gid) (foldl add_line (store ''boxscore'') ?L)).
            r ''player_id'' = l ''player_id''" .
  qed
  show ?thesis
    apply (intro conjI)
        apply (rule game)
       apply (rule dist)
      apply (rule sub)
     apply (rule cov)
    apply (rule same)
    done
qed

lemma reload_same_combined_payload_example:
  "fst (load_combined_data sample_env (sample_combined (JStr ''R'') (JStr ''S'')) empty_db) = Inr True
   \<and> fst (load_combined_data sample_env (sample_combined (JStr ''R'') (JStr ''S''))
        (snd (load_combined_data sample_env (sample_combined (JStr ''R'') (JStr ''S'')) empty_db)))
      = Inr True
   \<and> ((\<exists>row. combined_game_row sample_env (sample_combined (JStr ''R'') (JStr ''S'')) = Inr row
         \<and> filter (\<lambda>r. r ''game_id'' = SInt 700001)
             (snd (load_combined_data sample_env (sample_combined (JStr ''R'') (JStr ''S''))
                (snd (load_combined_data sample_env (sample_combined (JStr ''R'') (JStr ''S''))
                   empty_db))) ''games'') = [row])
     \<and> distinct (map (\<lambda>r. r ''player_id'') (filter (\<lambda>r. r ''game_id'' = SInt 700001)
          (snd (load_combined_data sample_env (sample_combined (JStr ''R'') (JStr ''S''))
             (snd (load_combined_data sample_env (sample_combined (JStr ''R'') (JStr ''S''))
                empty_db))) ''boxscore'')))
     \<and> snd (load_combined_data sample_env (sample_combined (JStr ''R'') (JStr ''S''))
          (snd (load_combined_data sample_env (sample_combined (JStr ''R'') (JStr ''S''))
             empty_db))) ''boxscore''
       = snd (load_combined_data sample_env (sample_combined (JStr ''R'') (JStr ''S''))
           empty_db) ''boxscore'')"
proof -
  let ?data = "sample_combined (JStr ''R'') (JStr ''S'')"
  let ?r1 = "load_combined_data sample_env ?data empty_db"
  let ?r2 = "load_combined_data sample_env ?data (snd ?r1)"
  have ok1: "fst ?r1 = Inr True" by code_simp
  have ok2: "fst ?r2 = Inr True" by code_simp
  have run1: "?r1 = (Inr True, snd ?r1)" using ok1 by (simp add: prod_eq_iff)
  have run2: "?r2 = (Inr True, snd ?r2)" using ok2 by (simp add: prod_eq_iff)
  have h1: "py_in ''game_data'' ?data = Inr True"
    by (simp add: sample_combined_def)
  have h2: "get0 ?data ''game_id'' = Inr (JInt 700001)"
    by (simp add: sample_combined_def get0_def)
  have h3: "bind_param (PJson (JInt 700001)) = Inr (SInt 700001)" by simp
  have h4: "filter (\<lambda>r. r ''game_id'' = SInt 700001) (empty_db ''games'') = []"
    by (simp add: empty_db_def)
  have h5: "filter (\<lambda>r. r ''game_id'' = SInt 700001) (empty_db ''boxscore'') = []"
    by (simp add: empty_db_def)
  have ids: "\<forall>l\<in>set (combined_lines ?data). l ''player_id'' \<noteq> SNull" by code_simp
  note c = reload_same_combined_payload[OF run1 run2 h1 h2 h3 h4 h5 ids]
  from c have game: "\<exists>row. combined_game_row sample_env ?data = Inr row
         \<and> filter (\<lambda>r. r ''game_id'' = SInt 700001) (snd ?r2 ''games'') = [row]"
    by (rule conjunct1)
  from c have dist: "distinct (map (\<lambda>r. r ''player_id'')
      (filter (\<lambda>r. r ''game_id'' = SInt 700001) (snd ?r2 ''boxscore'')))"
    by (rule conjunct1[OF conjunct2])
  from c have same: "snd ?r2 ''boxscore'' = snd ?r1 ''boxscore''"
    by (rule conjunct2[OF conjunct2[OF conjunct2[OF conjunct2]]])
  show ?thesis by (rule conjI[OF ok1 conjI[OF ok2 conjI[OF game conjI[OF dist same]]]])
qed

text \<open>
  Claim C1 at a combined payload with two player entries that both have a batting line,
  one of them without a \<^verbatim>\<open>person\<close>. The payload is loaded twice into the empty store and
  both loads return True. The line of the entry without a person is written with a NULL
  player id, and the guard of the statement, which compares \<^verbatim>\<open>player_id\<close> with that NULL,
  never finds it again: \<^verbatim>\<open>boxscore\<close> holds two lines after the first load and three after
  the second, the line with the NULL player id twice. The row of the game and the line of
  player 501 are stored once.
\<close>

theorem nameless_line_stored_twice:
  "fst (load_combined_data sample_env combined_with_nameless_entry empty_db) = Inr True
   \<and> map (\<lambda>r. map r [''game_id'', ''player_id'', ''at_bats''])
        (snd (load_combined_data sample_env combined_with_nameless_entry empty_db) ''boxscore'')
      = [[SInt 700001, SInt 501, SInt 3], [SInt 700001, SNull, SInt 3]]
   \<and> fst (load_combined_data sample_env combined_with_nameless_entry
        (snd (load_combined_data sample_env combined_with_nameless_entry empty_db))) = Inr True
   \<and> map (\<lambda>r. map r [''game_id'', ''player_id'', ''at_bats''])
        (snd (load_combined_data sample_env combined_with_nameless_entry
          (snd (load_combined_data sample_env combined_with_nameless_entry empty_db)))
          ''boxscore'')
      = [[SInt 700001, SInt 501, SInt 3], [SInt 700001, SNull, SInt 3],
         [SInt 700001, SNull, SInt 3]]
   \<and> map (\<lambda>r. r ''game_id'')
        (snd (load_combined_data sample_env combined_with_nameless_entry
          (snd (load_combined_data sample_env combined_with_nameless_entry empty_db)))
          ''games'')
      = [SInt 700001]"
  by code_simp

end
